theory Spec2Isabelle
  imports Main
begin

section \<open>Data model\<close>

text \<open>
  The constant objects of \<^verbatim>\<open>utils/constants.js\<close> that act as enumerations
  (\<^verbatim>\<open>VEHICLE_TYPES\<close>, \<^verbatim>\<open>PARKING_STATUS\<close>, \<^verbatim>\<open>BASEMENT_LEVELS\<close>,
  \<^verbatim>\<open>DAYS_OF_WEEK\<close>, \<^verbatim>\<open>ALERT_TYPES\<close>) are datatypes.  A JavaScript number that
  may be \<^verbatim>\<open>NaN\<close>, or a field that may be \<^verbatim>\<open>null\<close>, is an \<open>option\<close>.
\<close>

datatype vehicle_type = Carro | Moto | Bicicleta

datatype parking_status = Disponible | Ocupado | Mantenimiento

datatype basement_level = MinusOne | MinusThree

datatype day_of_week = Domingo | Lunes | Martes | Miercoles | Jueves | Viernes | Sabado

datatype alert_type = Success | Danger | Warning | Info

record employee =
  emp_id :: int
  nombre :: string
  cedula :: string
  placa :: "string option"
  tipoVehiculo :: vehicle_type

record parking_space =
  space_id :: int
  numero :: string
  sotano :: basement_level
  tipo :: vehicle_type
  estado :: parking_status
  empleadoAsignado :: "int option"
  space_fechaCreacion :: string

text \<open>
  JavaScript truthiness of a number-or-null value, as used by \<^verbatim>\<open>!space.empleadoAsignado\<close>
  and \<^verbatim>\<open>data.empleadoId && ...\<close>: \<^verbatim>\<open>null\<close>, \<^verbatim>\<open>NaN\<close> (both \<open>None\<close>) and \<open>0\<close> are falsy.
\<close>

definition truthy :: "int option \<Rightarrow> bool" where
  "truthy v = (case v of None \<Rightarrow> False | Some n \<Rightarrow> n \<noteq> 0)"

text \<open>\<^verbatim>\<open>Array.prototype.find\<close>: the first element satisfying the predicate, if any.\<close>

fun js_find :: "('a \<Rightarrow> bool) \<Rightarrow> 'a list \<Rightarrow> 'a option" where
  "js_find P [] = None"
| "js_find P (x # xs) = (if P x then Some x else js_find P xs)"

section \<open>Restriction calendar (\<^verbatim>\<open>utils/helpers.js\<close>)\<close>

text \<open>
  \<^verbatim>\<open>parseInt\<close> applied to a one-character string: the digit's value for \<^verbatim>\<open>0\<close>..\<^verbatim>\<open>9\<close>,
  \<^verbatim>\<open>NaN\<close> (\<open>None\<close>) for every other character.
\<close>

definition digit_values :: "(char \<times> nat) list" where
  "digit_values =
     [(CHR ''0'', 0), (CHR ''1'', 1), (CHR ''2'', 2), (CHR ''3'', 3), (CHR ''4'', 4),
      (CHR ''5'', 5), (CHR ''6'', 6), (CHR ''7'', 7), (CHR ''8'', 8), (CHR ''9'', 9)]"

definition parseInt_char :: "char \<Rightarrow> nat option" where
  "parseInt_char c = map_of digit_values c"

text \<open>
  \<^verbatim>\<open>calculatePicoPlacaDay(placa)\<close>.  The argument is \<open>None\<close> for \<^verbatim>\<open>null\<close>/\<^verbatim>\<open>undefined\<close>;
  the result \<open>None\<close> is the source's \<^verbatim>\<open>null\<close>.  \<^verbatim>\<open>placa.slice(-1)\<close> is the last
  character; a comparison of \<^verbatim>\<open>NaN\<close> with a number is false, so a plate that does not end
  in a digit falls through to the final \<^verbatim>\<open>return null\<close>.
\<close>

definition calculatePicoPlacaDay :: "string option \<Rightarrow> day_of_week option" where
  "calculatePicoPlacaDay p =
     (case p of
        None \<Rightarrow> None
      | Some s \<Rightarrow>
          if s = [] \<or> length s < 3 then None
          else (case parseInt_char (last s) of
                  None \<Rightarrow> None
                | Some lastDigit \<Rightarrow>
                    if lastDigit = 1 \<or> lastDigit = 2 then Some Lunes
                    else if lastDigit = 3 \<or> lastDigit = 4 then Some Martes
                    else if lastDigit = 5 \<or> lastDigit = 6 then Some Miercoles
                    else if lastDigit = 7 \<or> lastDigit = 8 then Some Jueves
                    else if lastDigit = 9 \<or> lastDigit = 0 then Some Viernes
                    else None))"

text \<open>
  \<^verbatim>\<open>getDayOfWeek(dateString)\<close> indexes \<^verbatim>\<open>Object.values(DAYS_OF_WEEK)\<close> with the runtime's
  \<^verbatim>\<open>new Date(dateString + 'T00:00:00').getDay()\<close>.  The runtime's calendar is a parameter
  \<open>getDay\<close>: it yields \<open>None\<close> (\<^verbatim>\<open>NaN\<close>) for a string that is not a date, and then the
  array read yields \<^verbatim>\<open>undefined\<close>, modelled as \<open>None\<close>.
\<close>

definition days :: "day_of_week list" where
  "days = [Domingo, Lunes, Martes, Miercoles, Jueves, Viernes, Sabado]"

definition getDayOfWeek :: "(string \<Rightarrow> nat option) \<Rightarrow> string \<Rightarrow> day_of_week option" where
  "getDayOfWeek getDay dateString =
     (case getDay dateString of
        None \<Rightarrow> None
      | Some i \<Rightarrow> if i < length days then Some (days ! i) else None)"

text \<open>
  \<^verbatim>\<open>dayOfWeek === employeePicoPlacaDay\<close>: the left side is a day name or \<^verbatim>\<open>undefined\<close>, the
  right side a day name or \<^verbatim>\<open>null\<close>; \<^verbatim>\<open>undefined === null\<close> is false, so the two are
  equal only when both are the same day name.
\<close>

definition same_day :: "day_of_week option \<Rightarrow> day_of_week option \<Rightarrow> bool" where
  "same_day dayOfWeek picoPlacaDay = (dayOfWeek \<noteq> None \<and> dayOfWeek = picoPlacaDay)"

section \<open>Daily availability (\<^verbatim>\<open>calculateDailyAvailability\<close>)\<close>

datatype motivo = SinAsignacion | EmpleadoNoEncontrado | PicoYPlaca "day_of_week option"
  | OcupadoNormalmente

text \<open>
  An element pushed to one of the three result arrays: a copy of the space
  (\<^verbatim>\<open>{...space, ...}\<close>) with the fields \<^verbatim>\<open>empleado\<close> (absent in the two "available"
  cases) and \<^verbatim>\<open>motivo\<close>.
\<close>

record availability_entry =
  entry_space :: parking_space
  entry_empleado :: "employee option"
  entry_motivo :: motivo

record availability_summary =
  totalAvailable :: nat
  normallyAvailable :: nat
  picoPlacaAvailable :: nat
  occupiedCount :: nat

record availability =
  available :: "availability_entry list"
  picoPlaca :: "availability_entry list"
  occupied :: "availability_entry list"
  summary :: availability_summary

text \<open>The three arrays the \<^verbatim>\<open>forEach\<close> callback pushes to.\<close>

record availability_arrays =
  availableSpaces :: "availability_entry list"
  picoPlacaSpaces :: "availability_entry list"
  occupiedSpaces :: "availability_entry list"

text \<open>One call of the \<^verbatim>\<open>forEach\<close> callback, with its three early returns.\<close>

definition availability_step ::
  "employee list \<Rightarrow> day_of_week option \<Rightarrow> availability_arrays \<Rightarrow> parking_space \<Rightarrow> availability_arrays"
where
  "availability_step emps dayOfWeek acc sp =
     (if estado sp = Mantenimiento then acc
      else if \<not> truthy (empleadoAsignado sp) then
        acc\<lparr>availableSpaces := availableSpaces acc @
          [\<lparr>entry_space = sp, entry_empleado = None, entry_motivo = SinAsignacion\<rparr>]\<rparr>
      else
        (case js_find (\<lambda>emp. Some (emp_id emp) = empleadoAsignado sp) emps of
           None \<Rightarrow>
             acc\<lparr>availableSpaces := availableSpaces acc @
               [\<lparr>entry_space = sp, entry_empleado = None, entry_motivo = EmpleadoNoEncontrado\<rparr>]\<rparr>
         | Some emp \<Rightarrow>
             if same_day dayOfWeek (calculatePicoPlacaDay (placa emp)) then
               acc\<lparr>picoPlacaSpaces := picoPlacaSpaces acc @
                 [\<lparr>entry_space = sp, entry_empleado = Some emp,
                   entry_motivo = PicoYPlaca dayOfWeek\<rparr>]\<rparr>
             else
               acc\<lparr>occupiedSpaces := occupiedSpaces acc @
                 [\<lparr>entry_space = sp, entry_empleado = Some emp,
                   entry_motivo = OcupadoNormalmente\<rparr>]\<rparr>))"

definition calculateDailyAvailability ::
  "(string \<Rightarrow> nat option) \<Rightarrow> parking_space list \<Rightarrow> employee list \<Rightarrow> string \<Rightarrow> availability"
where
  "calculateDailyAvailability getDay spaces emps date =
     (let dayOfWeek = getDayOfWeek getDay date;
          acc = foldl (availability_step emps dayOfWeek)
                  \<lparr>availableSpaces = [], picoPlacaSpaces = [], occupiedSpaces = []\<rparr> spaces
      in \<lparr>available = availableSpaces acc,
          picoPlaca = picoPlacaSpaces acc,
          occupied = occupiedSpaces acc,
          summary = \<lparr>totalAvailable = length (availableSpaces acc) + length (picoPlacaSpaces acc),
                     normallyAvailable = length (availableSpaces acc),
                     picoPlacaAvailable = length (picoPlacaSpaces acc),
                     occupiedCount = length (occupiedSpaces acc)\<rparr>\<rparr>)"

text \<open>The spaces that appear in one of the result arrays.\<close>

definition spaces_in :: "availability_entry list \<Rightarrow> parking_space set" where
  "spaces_in es = entry_space ` set es"

section \<open>Assignment manager (\<^verbatim>\<open>modules/assignments.js\<close>)\<close>

text \<open>
  The object \<^verbatim>\<open>getFormData()\<close> returns.  The two ids come from \<^verbatim>\<open>parseInt\<close> and may be
  \<^verbatim>\<open>NaN\<close> (\<open>None\<close>); \<^verbatim>\<open>fechaFin\<close> may be \<^verbatim>\<open>null\<close>.
\<close>

record form_data =
  empleadoId :: "int option"
  parqueaderoId :: "int option"
  fechaInicio :: string
  fechaFin :: "string option"

text \<open>An assignment is \<^verbatim>\<open>{id: generateId(), ...formData, activa, fechaCreacion}\<close>.\<close>

record assignment = form_data +
  asg_id :: int
  activa :: bool
  fechaCreacion :: string

record am_state =
  assignments :: "assignment list"
  employees :: "employee list"
  parkingSpaces :: "parking_space list"

text \<open>
  What the code takes from outside: the current date (\<^verbatim>\<open>getCurrentDate()\<close>), the values
  of successive \<^verbatim>\<open>generateId()\<close> calls, the user's answers to successive
  \<^verbatim>\<open>confirm\<close> dialogs, and whether \<^verbatim>\<open>saveData()\<close> of a given in-memory state completes
  (\<open>False\<close>: the storage service throws and \<^verbatim>\<open>saveData\<close> rethrows).
\<close>

record 'st env =
  today :: string
  generateId :: "nat \<Rightarrow> int"
  confirm :: "nat \<Rightarrow> bool"
  persist :: "'st \<Rightarrow> bool"

text \<open>
  The texts shown by \<^verbatim>\<open>showAlert\<close>, named by the constant or the place they come from.
  An alert whose text is \<open>None\<close> shows \<^verbatim>\<open>undefined\<close>.
\<close>

datatype alert_text =
    CompleteRequiredFields
  | EMPLOYEE_ALREADY_ASSIGNED
  | PARKING_ALREADY_ASSIGNED
  | VEHICLE_TYPE_MISMATCH
  | PARKING_ASSIGNED
  | ErrorCreatingAssignment
  | ASSIGNMENT_ENDED
  | ErrorEndingAssignment
  | NoUnassignedEmployees
  | NoAvailableSpaces
  | AUTO_ASSIGNMENTS_COMPLETED nat
  | ErrorAutoAssignment
  | MaxSpacesReached
  | BULK_PARKING_GENERATED nat
  | ErrorGeneratingSpaces
  | PARKING_DELETED
  | ErrorDeletingSpace

type_synonym alert = "alert_text option \<times> alert_type"

record validation =
  isValid :: bool
  message :: "alert_text option"

text \<open>
  \<^verbatim>\<open>===\<close> on two numbers that may be \<^verbatim>\<open>NaN\<close>: \<^verbatim>\<open>NaN\<close> equals nothing, itself included.
\<close>

definition num_eq :: "int option \<Rightarrow> int option \<Rightarrow> bool" where
  "num_eq a b = (a \<noteq> None \<and> a = b)"

text \<open>
  \<^verbatim>\<open>const x = xs.find(p); if (x) { x.f = ... }\<close>: the first matching object is mutated
  in place; the array keeps its length and order.
\<close>

fun update_first :: "('a \<Rightarrow> bool) \<Rightarrow> ('a \<Rightarrow> 'a) \<Rightarrow> 'a list \<Rightarrow> 'a list" where
  "update_first P f [] = []"
| "update_first P f (x # xs) = (if P x then f x # xs else x # update_first P f xs)"

definition validateAssignmentData :: "form_data \<Rightarrow> bool" where
  "validateAssignmentData d =
     (truthy (empleadoId d) \<and> truthy (parqueaderoId d) \<and> fechaInicio d \<noteq> [])"

text \<open>
  \<^verbatim>\<open>validateAssignment(formData)\<close>.  \<^verbatim>\<open>ERROR_MESSAGES\<close> in \<^verbatim>\<open>constants.js\<close> has no keys
  \<^verbatim>\<open>EMPLOYEE_NOT_FOUND\<close> and \<^verbatim>\<open>PARKING_NOT_FOUND\<close>, so the message of the first two
  failures is \<^verbatim>\<open>undefined\<close>.
\<close>

definition validateAssignment :: "am_state \<Rightarrow> form_data \<Rightarrow> validation" where
  "validateAssignment st formData =
     (case js_find (\<lambda>emp. Some (emp_id emp) = empleadoId formData) (employees st) of
        None \<Rightarrow> \<lparr>isValid = False, message = None\<rparr>
      | Some employee \<Rightarrow>
         (case js_find (\<lambda>sp. Some (space_id sp) = parqueaderoId formData) (parkingSpaces st) of
            None \<Rightarrow> \<lparr>isValid = False, message = None\<rparr>
          | Some parkingSpace \<Rightarrow>
             (case js_find (\<lambda>a. num_eq (empleadoId a) (empleadoId formData) \<and> activa a)
                     (assignments st) of
                Some existingAssignment \<Rightarrow>
                  \<lparr>isValid = False, message = Some EMPLOYEE_ALREADY_ASSIGNED\<rparr>
              | None \<Rightarrow>
                 (case js_find (\<lambda>a. num_eq (parqueaderoId a) (parqueaderoId formData) \<and> activa a)
                         (assignments st) of
                    Some parkingAssignment \<Rightarrow>
                      \<lparr>isValid = False, message = Some PARKING_ALREADY_ASSIGNED\<rparr>
                  | None \<Rightarrow>
                      if tipoVehiculo employee \<noteq> tipo parkingSpace
                      then \<lparr>isValid = False, message = Some VEHICLE_TYPE_MISMATCH\<rparr>
                      else \<lparr>isValid = True, message = None\<rparr>))))"

text \<open>
  \<^verbatim>\<open>createAssignment(formData)\<close>: the space found by id is marked, the assignment is pushed,
  then \<^verbatim>\<open>saveData()\<close> is awaited.  The second component is \<open>False\<close> when \<^verbatim>\<open>saveData\<close>
  throws: the in-memory changes have been made by then.  \<open>k\<close> numbers the
  \<^verbatim>\<open>generateId()\<close> call.  What follows the save (rendering, and the
  \<^verbatim>\<open>assignmentCreated\<close> event, for which these modules register no listener) changes
  none of the three lists.
\<close>

definition createAssignment ::
  "am_state env \<Rightarrow> nat \<Rightarrow> form_data \<Rightarrow> am_state \<Rightarrow> am_state \<times> bool"
where
  "createAssignment env k formData st =
     (let a = \<lparr>empleadoId = empleadoId formData, parqueaderoId = parqueaderoId formData,
                fechaInicio = fechaInicio formData, fechaFin = fechaFin formData,
                asg_id = generateId env k, activa = True, fechaCreacion = today env\<rparr>;
          st' = st\<lparr>parkingSpaces :=
                     update_first (\<lambda>sp. Some (space_id sp) = parqueaderoId formData)
                       (\<lambda>sp. sp\<lparr>empleadoAsignado := empleadoId formData, estado := Ocupado\<rparr>)
                       (parkingSpaces st),
                   assignments := assignments st @ [a]\<rparr>
      in (st', persist env st'))"

text \<open>\<^verbatim>\<open>handleFormSubmit\<close>, from the form data on: the new state and the alert shown.\<close>

definition handleFormSubmit :: "am_state env \<Rightarrow> form_data \<Rightarrow> am_state \<Rightarrow> am_state \<times> alert" where
  "handleFormSubmit env formData st =
     (if \<not> validateAssignmentData formData then (st, (Some CompleteRequiredFields, Danger))
      else
        let v = validateAssignment st formData in
        if \<not> isValid v then (st, (message v, Danger))
        else (case createAssignment env 0 formData st of
                (st', True) \<Rightarrow> (st', (Some PARKING_ASSIGNED, Success))
              | (st', False) \<Rightarrow> (st', (Some ErrorCreatingAssignment, Danger))))"

text \<open>
  \<^verbatim>\<open>endAssignment(assignmentId)\<close>; \<open>k\<close> numbers the \<^verbatim>\<open>confirm\<close> dialog.  No alert is
  shown when the id is unknown or the user declines.
\<close>

definition endAssignment ::
  "am_state env \<Rightarrow> nat \<Rightarrow> int \<Rightarrow> am_state \<Rightarrow> am_state \<times> alert option"
where
  "endAssignment env k assignmentId st =
     (case js_find (\<lambda>a. asg_id a = assignmentId) (assignments st) of
        None \<Rightarrow> (st, None)
      | Some a \<Rightarrow>
          if \<not> confirm env k then (st, None)
          else
            let st' = st\<lparr>assignments :=
                          update_first (\<lambda>a. asg_id a = assignmentId)
                            (\<lambda>a. a\<lparr>activa := False, fechaFin := Some (today env)\<rparr>)
                            (assignments st),
                        parkingSpaces :=
                          update_first (\<lambda>sp. Some (space_id sp) = parqueaderoId a)
                            (\<lambda>sp. sp\<lparr>empleadoAsignado := None, estado := Disponible\<rparr>)
                            (parkingSpaces st)\<rparr>
            in if persist env st' then (st', Some (Some ASSIGNMENT_ENDED, Success))
               else (st', Some (Some ErrorEndingAssignment, Danger)))"

subsection \<open>Automatic assignment\<close>

text \<open>
  How \<^verbatim>\<open>performAutoAssignment\<close> ends: one constructor per exit, each with the alert it
  shows.  The function itself returns no value; the number of assignments created is
  part of the text of the final alert.
\<close>

datatype auto_outcome =
    NoEmployees
  | NoSpaces
  | Declined
  | Completed nat
  | SaveFailed

definition auto_alert :: "auto_outcome \<Rightarrow> alert option" where
  "auto_alert out =
     (case out of
        NoEmployees \<Rightarrow> Some (Some NoUnassignedEmployees, Info)
      | NoSpaces \<Rightarrow> Some (Some NoAvailableSpaces, Info)
      | Declined \<Rightarrow> None
      | Completed n \<Rightarrow> Some (Some (AUTO_ASSIGNMENTS_COMPLETED n), Success)
      | SaveFailed \<Rightarrow> Some (Some ErrorAutoAssignment, Danger))"

definition has_active_for_employee :: "am_state \<Rightarrow> int \<Rightarrow> bool" where
  "has_active_for_employee st i =
     (\<exists>a \<in> set (assignments st). empleadoId a = Some i \<and> activa a)"

definition has_active_for_space :: "am_state \<Rightarrow> int \<Rightarrow> bool" where
  "has_active_for_space st i =
     (\<exists>a \<in> set (assignments st). parqueaderoId a = Some i \<and> activa a)"

definition unassignedEmployees :: "am_state \<Rightarrow> employee list" where
  "unassignedEmployees st =
     filter (\<lambda>emp. \<not> has_active_for_employee st (emp_id emp)) (employees st)"

text \<open>
  \<^verbatim>\<open>availableSpaces\<close> holds references to objects of \<^verbatim>\<open>this.parkingSpaces\<close>, which
  \<^verbatim>\<open>createAssignment\<close> later mutates; a reference is the object's position in
  \<^verbatim>\<open>this.parkingSpaces\<close> (the array itself is not changed during the pass).
\<close>

definition availableSpaceRefs :: "am_state \<Rightarrow> nat list" where
  "availableSpaceRefs st =
     filter (\<lambda>i. estado (parkingSpaces st ! i) = Disponible
                \<and> \<not> has_active_for_space st (space_id (parkingSpaces st ! i)))
       [0 ..< length (parkingSpaces st)]"

definition compatibleSpaces :: "am_state \<Rightarrow> nat list \<Rightarrow> employee \<Rightarrow> nat list" where
  "compatibleSpaces st avail employee =
     filter (\<lambda>i. tipo (parkingSpaces st ! i) = tipoVehiculo employee
                \<and> \<not> truthy (empleadoAsignado (parkingSpaces st ! i))) avail"

definition auto_form_data :: "'st env \<Rightarrow> employee \<Rightarrow> parking_space \<Rightarrow> form_data" where
  "auto_form_data env employee sp =
     \<lparr>empleadoId = Some (emp_id employee), parqueaderoId = Some (space_id sp),
      fechaInicio = today env, fechaFin = None\<rparr>"

text \<open>
  The \<^verbatim>\<open>for ... of unassignedEmployees\<close> loop; \<open>assignmentCount\<close> also numbers the
  \<^verbatim>\<open>generateId()\<close> calls.  A failed \<^verbatim>\<open>saveData\<close> leaves the loop through the
  \<^verbatim>\<open>catch\<close>.
\<close>

fun auto_loop ::
  "am_state env \<Rightarrow> nat list \<Rightarrow> employee list \<Rightarrow> am_state \<Rightarrow> nat \<Rightarrow> am_state \<times> auto_outcome"
where
  "auto_loop env avail [] st assignmentCount = (st, Completed assignmentCount)"
| "auto_loop env avail (employee # rest) st assignmentCount =
     (case compatibleSpaces st avail employee of
        [] \<Rightarrow> auto_loop env avail rest st assignmentCount
      | i # _ \<Rightarrow>
          (case createAssignment env assignmentCount
                  (auto_form_data env employee (parkingSpaces st ! i)) st of
             (st', False) \<Rightarrow> (st', SaveFailed)
           | (st', True) \<Rightarrow> auto_loop env avail rest st' (Suc assignmentCount)))"

definition performAutoAssignment :: "am_state env \<Rightarrow> am_state \<Rightarrow> am_state \<times> auto_outcome" where
  "performAutoAssignment env st =
     (if unassignedEmployees st = [] then (st, NoEmployees)
      else if availableSpaceRefs st = [] then (st, NoSpaces)
      else if \<not> confirm env 0 then (st, Declined)
      else auto_loop env (availableSpaceRefs st) (unassignedEmployees st) st 0)"

subsection \<open>Event listeners (\<^verbatim>\<open>bindEvents\<close>)\<close>

datatype event =
    EmployeeAdded employee
  | EmployeeDeleted int
  | ParkingSpaceAdded parking_space
  | ParkingSpaceDeleted int
  | BulkParkingGenerated nat

definition onEmployeeAdded :: "employee \<Rightarrow> am_state \<Rightarrow> am_state" where
  "onEmployeeAdded employee st = st\<lparr>employees := employees st @ [employee]\<rparr>"

definition onParkingSpaceAdded :: "parking_space \<Rightarrow> am_state \<Rightarrow> am_state" where
  "onParkingSpaceAdded sp st = st\<lparr>parkingSpaces := parkingSpaces st @ [sp]\<rparr>"

text \<open>
  The \<^verbatim>\<open>forEach\<close> of \<^verbatim>\<open>onEmployeeDeleted\<close>: \<^verbatim>\<open>endAssignment\<close> is called, not awaited, for
  each assignment of the list computed beforehand; each call makes its in-memory changes
  before the next call starts.
\<close>

fun end_each :: "am_state env \<Rightarrow> nat \<Rightarrow> assignment list \<Rightarrow> am_state \<Rightarrow> am_state" where
  "end_each env k [] st = st"
| "end_each env k (a # rest) st =
     end_each env (Suc k) rest (fst (endAssignment env k (asg_id a) st))"

definition onEmployeeDeleted :: "am_state env \<Rightarrow> int \<Rightarrow> am_state \<Rightarrow> am_state" where
  "onEmployeeDeleted env deletedId st =
     (let st1 = st\<lparr>employees := filter (\<lambda>emp. emp_id emp \<noteq> deletedId) (employees st)\<rparr>;
          employeeAssignments =
            filter (\<lambda>a. empleadoId a = Some deletedId \<and> activa a) (assignments st1)
      in end_each env 0 employeeAssignments st1)"

text \<open>
  The listeners \<^verbatim>\<open>bindEvents\<close> registers on \<^verbatim>\<open>window\<close>: \<^verbatim>\<open>employeeAdded\<close>,
  \<^verbatim>\<open>employeeDeleted\<close> and \<^verbatim>\<open>parkingSpaceAdded\<close>.  Every other event finds no listener of
  the assignment manager.
\<close>

definition am_dispatch :: "am_state env \<Rightarrow> event \<Rightarrow> am_state \<Rightarrow> am_state" where
  "am_dispatch env ev st =
     (case ev of
        EmployeeAdded employee \<Rightarrow> onEmployeeAdded employee st
      | EmployeeDeleted i \<Rightarrow> onEmployeeDeleted env i st
      | ParkingSpaceAdded sp \<Rightarrow> onParkingSpaceAdded sp st
      | ParkingSpaceDeleted i \<Rightarrow> st
      | BulkParkingGenerated n \<Rightarrow> st)"

section \<open>Parking manager (\<^verbatim>\<open>modules/parking.js\<close>)\<close>

text \<open>\<^verbatim>\<open>APP_CONFIG.MAX_PARKING_SPACES\<close> and \<^verbatim>\<open>PARKING_DISTRIBUTION\<close> of \<^verbatim>\<open>constants.js\<close>.\<close>

definition MAX_PARKING_SPACES :: nat where
  "MAX_PARKING_SPACES = 300"

definition CARROS_S1 :: nat where
  "CARROS_S1 = 120"

definition CARROS_S3 :: nat where
  "CARROS_S3 = 120"

definition MOTOS_S1 :: nat where
  "MOTOS_S1 = 45"

definition BICICLETAS_S1 :: nat where
  "BICICLETAS_S1 = 15"

text \<open>\<^verbatim>\<open>String(n)\<close> for a non-negative integer, and \<^verbatim>\<open>padStart(3, '0')\<close>.\<close>

definition digit_char :: "nat \<Rightarrow> char" where
  "digit_char d = ''0123456789'' ! d"

fun string_of_nat :: "nat \<Rightarrow> string" where
  "string_of_nat n =
     (if n < 10 then [digit_char n] else string_of_nat (n div 10) @ [digit_char (n mod 10)])"

declare string_of_nat.simps [simp del]

definition padStart3 :: "string \<Rightarrow> string" where
  "padStart3 s = replicate (3 - length s) (CHR ''0'') @ s"

text \<open>\<^verbatim>\<open>parseInt\<close> of the two \<^verbatim>\<open>BASEMENT_LEVELS\<close> strings \<^verbatim>\<open>'-1'\<close> and \<^verbatim>\<open>'-3'\<close>.\<close>

definition parseInt_sotano :: "basement_level \<Rightarrow> int" where
  "parseInt_sotano b = (case b of MinusOne \<Rightarrow> - 1 | MinusThree \<Rightarrow> - 3)"

definition typeCode :: "vehicle_type \<Rightarrow> string" where
  "typeCode t = (case t of Carro \<Rightarrow> ''C'' | Moto \<Rightarrow> ''M'' | Bicicleta \<Rightarrow> ''B'')"

text \<open>\<^verbatim>\<open>formatParkingNumber(sotano, tipo, numero)\<close> of \<^verbatim>\<open>helpers.js\<close>.\<close>

definition formatParkingNumber :: "basement_level \<Rightarrow> vehicle_type \<Rightarrow> nat \<Rightarrow> string" where
  "formatParkingNumber sot tp num =
     (let prefix = ''S'' @ string_of_nat (nat \<bar>parseInt_sotano sot\<bar>)
      in prefix @ ''-'' @ typeCode tp @ padStart3 (string_of_nat num))"

record distribution =
  carrosS1 :: nat
  carrosS3 :: nat
  motos :: nat
  bicicletas :: nat

text \<open>\<^verbatim>\<open>calculateDistribution(totalSpaces)\<close> does not read its argument.\<close>

definition calculateDistribution :: "nat \<Rightarrow> distribution" where
  "calculateDistribution totalSpaces =
     \<lparr>carrosS1 = CARROS_S1, carrosS3 = CARROS_S3, motos = MOTOS_S1, bicicletas = BICICLETAS_S1\<rparr>"

definition getNextSequentialNumber ::
  "parking_space list \<Rightarrow> vehicle_type \<Rightarrow> basement_level \<Rightarrow> nat"
where
  "getNextSequentialNumber spaces tp basement =
     length (filter (\<lambda>sp. tipo sp = tp \<and> sotano sp = basement) spaces) + 1"

text \<open>
  One element of \<^verbatim>\<open>spaceTypes\<close> handled by the \<^verbatim>\<open>forEach\<close> callback: the inner
  \<^verbatim>\<open>for (let i = 1; i <= count; i++)\<close> pushes one space per round.  \<open>spaces\<close> is
  \<^verbatim>\<open>this.parkingSpaces\<close>, which is only extended after both loops have ended;
  \<open>idCounter\<close> counts the spaces pushed so far, and so also the \<^verbatim>\<open>generateId()\<close> calls.
\<close>

definition generate_bucket ::
  "'st env \<Rightarrow> parking_space list \<Rightarrow> parking_space list \<times> nat
     \<Rightarrow> vehicle_type \<times> basement_level \<times> nat \<Rightarrow> parking_space list \<times> nat"
where
  "generate_bucket env spaces acc bucket =
     (case (acc, bucket) of
        ((newSpaces, idCounter), (tp, basement, count)) \<Rightarrow>
          (newSpaces @
             map (\<lambda>i. \<lparr>space_id = generateId env (idCounter + (i - 1)) + int (idCounter + (i - 1)),
                        numero = formatParkingNumber basement tp
                                   (getNextSequentialNumber spaces tp basement),
                        sotano = basement, tipo = tp, estado = Disponible,
                        empleadoAsignado = None, space_fechaCreacion = today env\<rparr>)
               [1 ..< Suc count],
           idCounter + count))"

definition spaceTypes :: "distribution \<Rightarrow> (vehicle_type \<times> basement_level \<times> nat) list" where
  "spaceTypes d =
     [(Carro, MinusOne, carrosS1 d), (Carro, MinusThree, carrosS3 d),
      (Moto, MinusOne, motos d), (Bicicleta, MinusOne, bicicletas d)]"

definition newSpaces :: "'st env \<Rightarrow> nat \<Rightarrow> parking_space list \<Rightarrow> parking_space list" where
  "newSpaces env totalSpaces spaces =
     fst (foldl (generate_bucket env spaces) ([], 0)
            (spaceTypes (calculateDistribution totalSpaces)))"

text \<open>
  \<^verbatim>\<open>generateParkingSpaces(totalSpaces)\<close>: the new list, and whether \<^verbatim>\<open>saveData()\<close>
  completed.
\<close>

definition generateParkingSpaces ::
  "parking_space list env \<Rightarrow> nat \<Rightarrow> parking_space list \<Rightarrow> parking_space list \<times> bool"
where
  "generateParkingSpaces env totalSpaces spaces =
     (let spaces' = spaces @ newSpaces env totalSpaces spaces
      in (spaces', persist env spaces'))"

definition handleBulkGenerate ::
  "parking_space list env \<Rightarrow> parking_space list \<Rightarrow> parking_space list \<times> alert option"
where
  "handleBulkGenerate env spaces =
     (let currentCount = length spaces; maxSpaces = MAX_PARKING_SPACES in
      if currentCount \<ge> maxSpaces then (spaces, Some (Some MaxSpacesReached, Warning))
      else
        let remainingSpaces = maxSpaces - currentCount in
        if \<not> confirm env 0 then (spaces, None)
        else (case generateParkingSpaces env remainingSpaces spaces of
                (spaces', True) \<Rightarrow>
                  (spaces', Some (Some (BULK_PARKING_GENERATED remainingSpaces), Success))
              | (spaces', False) \<Rightarrow> (spaces', Some (Some ErrorGeneratingSpaces, Danger))))"

text \<open>
  \<^verbatim>\<open>deleteParkingSpace(id)\<close>: the new list, the events dispatched on \<^verbatim>\<open>window\<close> and the
  alert shown.
\<close>

definition deleteParkingSpace ::
  "parking_space list env \<Rightarrow> int \<Rightarrow> parking_space list
     \<Rightarrow> parking_space list \<times> event list \<times> alert option"
where
  "deleteParkingSpace env i spaces =
     (case js_find (\<lambda>sp. space_id sp = i) spaces of
        None \<Rightarrow> (spaces, [], None)
      | Some sp \<Rightarrow>
          if \<not> confirm env 0 then (spaces, [], None)
          else
            let spaces' = filter (\<lambda>sp. space_id sp \<noteq> i) spaces in
            if persist env spaces'
            then (spaces', [ParkingSpaceDeleted i], Some (Some PARKING_DELETED, Success))
            else (spaces', [], Some (Some ErrorDeletingSpace, Danger)))"

text \<open>
  A deletion in the parking manager followed by the delivery of its events to the
  listeners of the assignment manager.
\<close>

definition delete_space_and_notify ::
  "parking_space list env \<Rightarrow> am_state env \<Rightarrow> int \<Rightarrow> parking_space list \<times> am_state
     \<Rightarrow> parking_space list \<times> am_state"
where
  "delete_space_and_notify penv aenv i sys =
     (case deleteParkingSpace penv i (fst sys) of
        (spaces', events, shown) \<Rightarrow>
          (spaces', foldl (\<lambda>st ev. am_dispatch aenv ev st) (snd sys) events))"

section \<open>Reference formulations of the automatic pass\<close>

text \<open>
  The automatic pass with the validator run on each chosen pair before anything is
  changed; a rejected pair is skipped.
\<close>

fun validated_auto_loop ::
  "am_state env \<Rightarrow> nat list \<Rightarrow> employee list \<Rightarrow> am_state \<Rightarrow> nat \<Rightarrow> am_state \<times> auto_outcome"
where
  "validated_auto_loop env avail [] st assignmentCount = (st, Completed assignmentCount)"
| "validated_auto_loop env avail (employee # rest) st assignmentCount =
     (case compatibleSpaces st avail employee of
        [] \<Rightarrow> validated_auto_loop env avail rest st assignmentCount
      | i # _ \<Rightarrow>
          if \<not> isValid (validateAssignment st (auto_form_data env employee (parkingSpaces st ! i)))
          then validated_auto_loop env avail rest st assignmentCount
          else
            (case createAssignment env assignmentCount
                    (auto_form_data env employee (parkingSpaces st ! i)) st of
               (st', False) \<Rightarrow> (st', SaveFailed)
             | (st', True) \<Rightarrow> validated_auto_loop env avail rest st' (Suc assignmentCount)))"

text \<open>
  The greedy pass in the specification's words: each unassigned employee, in list order,
  gets the first available space of the employee's vehicle type that no earlier round of
  the pass has claimed; \<open>claimed\<close> lists the spaces claimed so far.
\<close>

fun greedy_pass ::
  "am_state env \<Rightarrow> nat list \<Rightarrow> nat list \<Rightarrow> employee list \<Rightarrow> am_state \<Rightarrow> nat
     \<Rightarrow> am_state \<times> auto_outcome"
where
  "greedy_pass env avail claimed [] st n = (st, Completed n)"
| "greedy_pass env avail claimed (employee # rest) st n =
     (case js_find (\<lambda>i. tipo (parkingSpaces st ! i) = tipoVehiculo employee \<and> i \<notin> set claimed)
             avail of
        None \<Rightarrow> greedy_pass env avail claimed rest st n
      | Some i \<Rightarrow>
          (case createAssignment env n (auto_form_data env employee (parkingSpaces st ! i)) st of
             (st', False) \<Rightarrow> (st', SaveFailed)
           | (st', True) \<Rightarrow> greedy_pass env avail (i # claimed) rest st' (Suc n)))"

section \<open>Sample data\<close>

text \<open>Small rosters on which the statements below are instantiated.\<close>

definition sample_employee :: "int \<Rightarrow> string \<Rightarrow> vehicle_type \<Rightarrow> employee" where
  "sample_employee i p t =
     \<lparr>emp_id = i, nombre = ''N'', cedula = ''0'', placa = Some p, tipoVehiculo = t\<rparr>"

definition sample_space :: "int \<Rightarrow> vehicle_type \<Rightarrow> parking_status \<Rightarrow> int option \<Rightarrow> parking_space" where
  "sample_space i t e r =
     \<lparr>space_id = i, numero = ''S1-C001'', sotano = MinusOne, tipo = t, estado = e,
      empleadoAsignado = r, space_fechaCreacion = ''2024-01-01''\<rparr>"

definition sample_assignment :: "int \<Rightarrow> int \<Rightarrow> int \<Rightarrow> bool \<Rightarrow> assignment" where
  "sample_assignment i e s act =
     \<lparr>empleadoId = Some e, parqueaderoId = Some s, fechaInicio = ''2024-01-01'',
      fechaFin = None, asg_id = i, activa = act, fechaCreacion = ''2024-01-01''\<rparr>"

definition sample_env :: "'st env" where
  "sample_env =
     \<lparr>today = ''2024-06-06'', generateId = (\<lambda>k. 1000 + int k), confirm = (\<lambda>k. True),
      persist = (\<lambda>st. True)\<rparr>"

text \<open>A calendar in which every date is a Thursday (\<^verbatim>\<open>getDay() = 4\<close>).\<close>

definition thursday :: "string \<Rightarrow> nat option" where
  "thursday d = Some 4"

text \<open>
  Four spaces (free, held by employee 1, held by employee 2, in maintenance) and two
  employees whose plates end in 7 and in 0.
\<close>

definition sample_spaces :: "parking_space list" where
  "sample_spaces =
     [sample_space 10 Carro Disponible None, sample_space 11 Carro Ocupado (Some 1),
      sample_space 12 Carro Ocupado (Some 2), sample_space 14 Carro Mantenimiento (Some 1)]"

definition sample_roster :: "employee list" where
  "sample_roster = [sample_employee 1 ''ABC127'' Carro, sample_employee 2 ''XYZ450'' Carro]"

text \<open>
  A state with two car drivers, a motorcyclist, two free car spaces and no assignment;
  and the form data for a pair of ids.
\<close>

definition sample_state :: am_state where
  "sample_state =
     \<lparr>assignments = [],
      employees = [sample_employee 1 ''ABC127'' Carro, sample_employee 2 ''XYZ450'' Carro,
                   sample_employee 3 ''MOT12A'' Moto],
      parkingSpaces = [sample_space 10 Carro Disponible None,
                       sample_space 11 Carro Disponible None]\<rparr>"

definition sample_form :: "int \<Rightarrow> int \<Rightarrow> form_data" where
  "sample_form e s =
     \<lparr>empleadoId = Some e, parqueaderoId = Some s, fechaInicio = ''2024-06-06'',
      fechaFin = None\<rparr>"

text \<open>
  A state in which space 10 was held by employee 1 (assignment 1, ended) and is now held
  by employee 2 (assignment 2, active).
\<close>

definition sample_assigned_state :: am_state where
  "sample_assigned_state =
     \<lparr>assignments = [sample_assignment 1 1 10 False, sample_assignment 2 2 10 True],
      employees = [sample_employee 1 ''ABC127'' Carro, sample_employee 2 ''XYZ450'' Carro],
      parkingSpaces = [sample_space 10 Carro Ocupado (Some 2)]\<rparr>"

section \<open>Conditions on the state used by the statements on the automatic pass\<close>

text \<open>
  \<^verbatim>\<open>performAutoAssignment\<close> with the validated loop in place of the loop of the source.
\<close>

definition performAutoAssignment_validated ::
  "am_state env \<Rightarrow> am_state \<Rightarrow> am_state \<times> auto_outcome"
where
  "performAutoAssignment_validated env st =
     (if unassignedEmployees st = [] then (st, NoEmployees)
      else if availableSpaceRefs st = [] then (st, NoSpaces)
      else if \<not> confirm env 0 then (st, Declined)
      else validated_auto_loop env (availableSpaceRefs st) (unassignedEmployees st) st 0)"

text \<open>
  During a pass over the employees \<open>rest\<close>: ids identify employees and spaces, no waiting
  employee has id 0 or an active assignment, and an available space that an active
  assignment refers to carries an assigned employee.
\<close>

definition pass_invariant :: "nat list \<Rightarrow> employee list \<Rightarrow> am_state \<Rightarrow> bool" where
  "pass_invariant avail rest st \<longleftrightarrow>
     distinct (map emp_id (employees st))
     \<and> distinct (map space_id (parkingSpaces st))
     \<and> distinct (map emp_id rest)
     \<and> (\<forall>e \<in> set rest. e \<in> set (employees st) \<and> emp_id e \<noteq> 0
                         \<and> \<not> has_active_for_employee st (emp_id e))
     \<and> (\<forall>i \<in> set avail. i < length (parkingSpaces st)
            \<and> (has_active_for_space st (space_id (parkingSpaces st ! i))
                 \<longrightarrow> truthy (empleadoAsignado (parkingSpaces st ! i))))"

text \<open>
  During a pass: space ids identify spaces, and the available spaces that carry an
  assigned employee are exactly those claimed so far.
\<close>

definition claim_tracking :: "nat list \<Rightarrow> nat list \<Rightarrow> am_state \<Rightarrow> bool" where
  "claim_tracking avail claimed st \<longleftrightarrow>
     distinct (map space_id (parkingSpaces st))
     \<and> (\<forall>i \<in> set avail. i < length (parkingSpaces st)
            \<and> (truthy (empleadoAsignado (parkingSpaces st ! i)) \<longleftrightarrow> i \<in> set claimed))"

text \<open>
  Two states with ids that occur twice (\<^verbatim>\<open>generateId()\<close> is a timestamp plus a random
  number below 1000, so two records created close together can get the same id): two
  employees with id 5, and two spaces with id 10.
\<close>

definition sample_twin_employees :: am_state where
  "sample_twin_employees =
     \<lparr>assignments = [],
      employees = [sample_employee 5 ''ABC127'' Carro, sample_employee 5 ''XYZ450'' Carro],
      parkingSpaces = [sample_space 10 Carro Disponible None,
                       sample_space 11 Carro Disponible None]\<rparr>"

definition sample_twin_spaces :: am_state where
  "sample_twin_spaces =
     \<lparr>assignments = [],
      employees = [sample_employee 1 ''ABC127'' Carro, sample_employee 2 ''XYZ450'' Carro,
                   sample_employee 3 ''MOT128'' Carro],
      parkingSpaces = [sample_space 10 Carro Disponible None,
                       sample_space 10 Carro Disponible None]\<rparr>"

text \<open>A calendar in which every date is a Monday (\<^verbatim>\<open>getDay() = 1\<close>).\<close>

definition monday :: "string \<Rightarrow> nat option" where
  "monday d = Some 1"

text \<open>
  A roster whose only employee has id 0 and a plate ending in 0, and a space that refers
  to id 0.
\<close>

definition sample_zero_roster :: "employee list" where
  "sample_zero_roster = [sample_employee 0 ''XYZ450'' Carro]"

definition sample_zero_space :: parking_space where
  "sample_zero_space = sample_space 12 Carro Ocupado (Some 0)"

section \<open>Properties of the restriction calendar\<close>

lemma parseInt_char_less_10: "parseInt_char c = Some d \<Longrightarrow> d < 10"
  by (auto simp: parseInt_char_def digit_values_def split: if_splits)

text \<open>
  Claim C3, as the code has it.  \<^verbatim>\<open>calculatePicoPlacaDay\<close> is a total function of the
  plate alone.  It returns no day (\<^verbatim>\<open>null\<close>) when the plate is absent, when it has fewer
  than 3 characters, and also when its last character is not a decimal digit; otherwise
  the day depends only on the last character: 1 or 2 Monday, 3 or 4 Tuesday, 5 or 6
  Wednesday, 7 or 8 Thursday, 9 or 0 Friday.
\<close>

theorem calculatePicoPlacaDay_by_last_char:
  "calculatePicoPlacaDay p =
     (case p of
        None \<Rightarrow> None
      | Some s \<Rightarrow>
          if length s < 3 then None
          else if last s \<in> {CHR ''1'', CHR ''2''} then Some Lunes
          else if last s \<in> {CHR ''3'', CHR ''4''} then Some Martes
          else if last s \<in> {CHR ''5'', CHR ''6''} then Some Miercoles
          else if last s \<in> {CHR ''7'', CHR ''8''} then Some Jueves
          else if last s \<in> {CHR ''9'', CHR ''0''} then Some Viernes
          else None)"
  by (cases p) (auto simp: calculatePicoPlacaDay_def parseInt_char_def digit_values_def)

text \<open>
  The statement at three plates: one ending in 7, one ending in 0, one too short.
\<close>

theorem calculatePicoPlacaDay_by_last_char_witness:
  "calculatePicoPlacaDay (Some ''ABC127'') = Some Jueves
   \<and> calculatePicoPlacaDay (Some ''XYZ450'') = Some Viernes
   \<and> calculatePicoPlacaDay (Some ''12'') = None"
  using calculatePicoPlacaDay_by_last_char [of "Some ''ABC127''"]
    calculatePicoPlacaDay_by_last_char [of "Some ''XYZ450''"]
    calculatePicoPlacaDay_by_last_char [of "Some ''12''"]
  by simp

text \<open>
  Claim C3 as stated fails: the plate \<^verbatim>\<open>"ABC"\<close> has 3 characters, and the function
  returns none of the five weekdays for it.
\<close>

theorem calculatePicoPlacaDay_letters_counterexample:
  "\<not> length ''ABC'' < 3
   \<and> calculatePicoPlacaDay (Some ''ABC'')
       \<notin> {Some Lunes, Some Martes, Some Miercoles, Some Jueves, Some Viernes}"
  by (simp add: calculatePicoPlacaDay_def parseInt_char_def digit_values_def)

section \<open>Properties of the daily availability\<close>

lemma js_find_None_iff: "js_find P xs = None \<longleftrightarrow> (\<forall>x \<in> set xs. \<not> P x)"
  by (induction xs) auto

lemma js_find_Some_D: "js_find P xs = Some x \<Longrightarrow> x \<in> set xs \<and> P x"
  by (induction xs) (auto split: if_splits)

lemma fold_available:
  "spaces_in (availableSpaces (foldl (availability_step emps d) acc xs)) =
     spaces_in (availableSpaces acc) \<union>
     {sp \<in> set xs. estado sp \<noteq> Mantenimiento \<and>
        (\<not> truthy (empleadoAsignado sp) \<or>
         js_find (\<lambda>emp. Some (emp_id emp) = empleadoAsignado sp) emps = None)}"
  by (induction xs arbitrary: acc)
     (auto simp: availability_step_def spaces_in_def split: option.splits)

lemma fold_picoPlaca:
  "spaces_in (picoPlacaSpaces (foldl (availability_step emps d) acc xs)) =
     spaces_in (picoPlacaSpaces acc) \<union>
     {sp \<in> set xs. estado sp \<noteq> Mantenimiento \<and> truthy (empleadoAsignado sp) \<and>
        (\<exists>emp. js_find (\<lambda>emp. Some (emp_id emp) = empleadoAsignado sp) emps = Some emp \<and>
               same_day d (calculatePicoPlacaDay (placa emp)))}"
  by (induction xs arbitrary: acc)
     (auto simp: availability_step_def spaces_in_def split: option.splits)

lemma fold_occupied:
  "spaces_in (occupiedSpaces (foldl (availability_step emps d) acc xs)) =
     spaces_in (occupiedSpaces acc) \<union>
     {sp \<in> set xs. estado sp \<noteq> Mantenimiento \<and> truthy (empleadoAsignado sp) \<and>
        (\<exists>emp. js_find (\<lambda>emp. Some (emp_id emp) = empleadoAsignado sp) emps = Some emp \<and>
               \<not> same_day d (calculatePicoPlacaDay (placa emp)))}"
  by (induction xs arbitrary: acc)
     (auto simp: availability_step_def spaces_in_def split: option.splits)

lemma available_spaces:
  "spaces_in (available (calculateDailyAvailability getDay spaces emps date)) =
     {sp \<in> set spaces. estado sp \<noteq> Mantenimiento \<and>
        (\<not> truthy (empleadoAsignado sp) \<or>
         js_find (\<lambda>emp. Some (emp_id emp) = empleadoAsignado sp) emps = None)}"
  by (simp add: calculateDailyAvailability_def Let_def fold_available) (simp add: spaces_in_def)

lemma picoPlaca_spaces:
  "spaces_in (picoPlaca (calculateDailyAvailability getDay spaces emps date)) =
     {sp \<in> set spaces. estado sp \<noteq> Mantenimiento \<and> truthy (empleadoAsignado sp) \<and>
        (\<exists>emp. js_find (\<lambda>emp. Some (emp_id emp) = empleadoAsignado sp) emps = Some emp \<and>
               same_day (getDayOfWeek getDay date) (calculatePicoPlacaDay (placa emp)))}"
  by (simp add: calculateDailyAvailability_def Let_def fold_picoPlaca) (simp add: spaces_in_def)

lemma occupied_spaces:
  "spaces_in (occupied (calculateDailyAvailability getDay spaces emps date)) =
     {sp \<in> set spaces. estado sp \<noteq> Mantenimiento \<and> truthy (empleadoAsignado sp) \<and>
        (\<exists>emp. js_find (\<lambda>emp. Some (emp_id emp) = empleadoAsignado sp) emps = Some emp \<and>
               \<not> same_day (getDayOfWeek getDay date) (calculatePicoPlacaDay (placa emp)))}"
  by (simp add: calculateDailyAvailability_def Let_def fold_occupied) (simp add: spaces_in_def)

lemma in_available_iff:
  "sp \<in> spaces_in (available (calculateDailyAvailability getDay spaces emps date)) \<longleftrightarrow>
     sp \<in> set spaces \<and> estado sp \<noteq> Mantenimiento \<and>
     (\<not> truthy (empleadoAsignado sp) \<or>
      js_find (\<lambda>emp. Some (emp_id emp) = empleadoAsignado sp) emps = None)"
  by (simp add: available_spaces)

lemma in_picoPlaca_iff:
  "sp \<in> spaces_in (picoPlaca (calculateDailyAvailability getDay spaces emps date)) \<longleftrightarrow>
     sp \<in> set spaces \<and> estado sp \<noteq> Mantenimiento \<and> truthy (empleadoAsignado sp) \<and>
     (\<exists>emp. js_find (\<lambda>emp. Some (emp_id emp) = empleadoAsignado sp) emps = Some emp \<and>
            same_day (getDayOfWeek getDay date) (calculatePicoPlacaDay (placa emp)))"
  by (simp add: picoPlaca_spaces)

lemma in_occupied_iff:
  "sp \<in> spaces_in (occupied (calculateDailyAvailability getDay spaces emps date)) \<longleftrightarrow>
     sp \<in> set spaces \<and> estado sp \<noteq> Mantenimiento \<and> truthy (empleadoAsignado sp) \<and>
     (\<exists>emp. js_find (\<lambda>emp. Some (emp_id emp) = empleadoAsignado sp) emps = Some emp \<and>
            \<not> same_day (getDayOfWeek getDay date) (calculatePicoPlacaDay (placa emp)))"
  by (simp add: occupied_spaces)

lemma availability_cover:
  "spaces_in (available (calculateDailyAvailability getDay spaces emps date))
   \<union> spaces_in (picoPlaca (calculateDailyAvailability getDay spaces emps date))
   \<union> spaces_in (occupied (calculateDailyAvailability getDay spaces emps date))
      = {x \<in> set spaces. estado x \<noteq> Mantenimiento}"
proof (rule set_eqI)
  fix x :: parking_space
  show "(x \<in> spaces_in (available (calculateDailyAvailability getDay spaces emps date))
   \<union> spaces_in (picoPlaca (calculateDailyAvailability getDay spaces emps date))
   \<union> spaces_in (occupied (calculateDailyAvailability getDay spaces emps date)))
      = (x \<in> {x \<in> set spaces. estado x \<noteq> Mantenimiento})"
    unfolding available_spaces picoPlaca_spaces occupied_spaces
    by (cases "js_find (\<lambda>emp. Some (emp_id emp) = empleadoAsignado x) emps") auto
qed



lemma first_index_js_find:
  "i < length xs \<Longrightarrow> P (xs ! i) \<Longrightarrow> \<forall>j < i. \<not> P (xs ! j) \<Longrightarrow> js_find P xs = Some (xs ! i)"
proof (induction xs arbitrary: i)
  case Nil
  then show ?case by simp
next
  case (Cons x xs)
  show ?case
  proof (cases i)
    case 0
    with Cons.prems show ?thesis by simp
  next
    case (Suc k)
    with Cons.prems have np: "\<not> P x" by auto
    have "\<forall>j < k. \<not> P (xs ! j)"
    proof (intro allI impI)
      fix j assume "j < k"
      then have "Suc j < i" using Suc by simp
      with Cons.prems(3) have "\<not> P ((x # xs) ! Suc j)" by blast
      then show "\<not> P (xs ! j)" by simp
    qed
    with Cons.IH [of k] Cons.prems Suc have "js_find P xs = Some (xs ! k)" by simp
    with np Suc show ?thesis by simp
  qed
qed

lemma restriction_day_Lunes:
  "calculatePicoPlacaDay pl = Some Lunes \<longleftrightarrow>
     (\<exists>p. pl = Some p \<and> 3 \<le> length p \<and> last p \<in> {CHR ''1'', CHR ''2''})"
  by (cases pl) (auto simp: calculatePicoPlacaDay_def parseInt_char_def digit_values_def)

lemma restriction_day_Martes:
  "calculatePicoPlacaDay pl = Some Martes \<longleftrightarrow>
     (\<exists>p. pl = Some p \<and> 3 \<le> length p \<and> last p \<in> {CHR ''3'', CHR ''4''})"
  by (cases pl) (auto simp: calculatePicoPlacaDay_def parseInt_char_def digit_values_def)

lemma restriction_day_Miercoles:
  "calculatePicoPlacaDay pl = Some Miercoles \<longleftrightarrow>
     (\<exists>p. pl = Some p \<and> 3 \<le> length p \<and> last p \<in> {CHR ''5'', CHR ''6''})"
  by (cases pl) (auto simp: calculatePicoPlacaDay_def parseInt_char_def digit_values_def)

lemma restriction_day_Jueves:
  "calculatePicoPlacaDay pl = Some Jueves \<longleftrightarrow>
     (\<exists>p. pl = Some p \<and> 3 \<le> length p \<and> last p \<in> {CHR ''7'', CHR ''8''})"
  by (cases pl) (auto simp: calculatePicoPlacaDay_def parseInt_char_def digit_values_def)

lemma restriction_day_Viernes:
  "calculatePicoPlacaDay pl = Some Viernes \<longleftrightarrow>
     (\<exists>p. pl = Some p \<and> 3 \<le> length p \<and> last p \<in> {CHR ''9'', CHR ''0''})"
  by (cases pl) (auto simp: calculatePicoPlacaDay_def parseInt_char_def digit_values_def)

lemma restriction_day_weekend:
  "calculatePicoPlacaDay pl \<noteq> Some Domingo" "calculatePicoPlacaDay pl \<noteq> Some Sabado"
  by (cases pl; auto simp: calculatePicoPlacaDay_def split: option.splits)+

lemma getDayOfWeek_cases:
  "getDayOfWeek getDay date =
     (if getDay date = Some 0 then Some Domingo
      else if getDay date = Some 1 then Some Lunes
      else if getDay date = Some 2 then Some Martes
      else if getDay date = Some 3 then Some Miercoles
      else if getDay date = Some 4 then Some Jueves
      else if getDay date = Some 5 then Some Viernes
      else if getDay date = Some 6 then Some Sabado
      else None)"
proof (cases "getDay date")
  case None
  then show ?thesis by (simp add: getDayOfWeek_def)
next
  case (Some n)
  consider "n = 0" | "n = 1" | "n = 2" | "n = 3" | "n = 4" | "n = 5" | "n = 6" | "7 \<le> n"
    by linarith
  then show ?thesis
    by cases (simp_all add: Some getDayOfWeek_def days_def)
qed

lemma same_day_explicit:
  "same_day (getDayOfWeek getDay date) (calculatePicoPlacaDay pl) \<longleftrightarrow>
     (\<exists>p. pl = Some p \<and> 3 \<le> length p \<and>
        ((getDay date = Some 1 \<and> last p \<in> {CHR ''1'', CHR ''2''})
         \<or> (getDay date = Some 2 \<and> last p \<in> {CHR ''3'', CHR ''4''})
         \<or> (getDay date = Some 3 \<and> last p \<in> {CHR ''5'', CHR ''6''})
         \<or> (getDay date = Some 4 \<and> last p \<in> {CHR ''7'', CHR ''8''})
         \<or> (getDay date = Some 5 \<and> last p \<in> {CHR ''9'', CHR ''0''})))"
  (is "?L \<longleftrightarrow> ?R")
proof -
  have L: "?L \<longleftrightarrow>
      (getDay date = Some 1 \<and> calculatePicoPlacaDay pl = Some Lunes)
      \<or> (getDay date = Some 2 \<and> calculatePicoPlacaDay pl = Some Martes)
      \<or> (getDay date = Some 3 \<and> calculatePicoPlacaDay pl = Some Miercoles)
      \<or> (getDay date = Some 4 \<and> calculatePicoPlacaDay pl = Some Jueves)
      \<or> (getDay date = Some 5 \<and> calculatePicoPlacaDay pl = Some Viernes)"
    using restriction_day_weekend [of pl]
    by (auto simp: same_day_def getDayOfWeek_cases split: if_splits)
  show ?thesis
    unfolding L restriction_day_Lunes restriction_day_Martes restriction_day_Miercoles
      restriction_day_Jueves restriction_day_Viernes
    by blast
qed


text \<open>
  Claim C2, as the code has it.  For every list of spaces, every list of employees, every
  calendar and every date: the spaces that appear in the three result arrays are exactly
  the spaces of the input that are not in maintenance; a space in maintenance appears in
  none of the three; every other space of the input appears in exactly one of them.  The
  function sees assignments only through the space's \<^verbatim>\<open>empleadoAsignado\<close> field.  A
  space whose field is \<^verbatim>\<open>null\<close> or 0 is in \<^verbatim>\<open>available\<close>, and so is a space whose
  nonzero reference is the id of no employee.  Otherwise the assigned employee is the
  first employee of the list with that id: the space is in \<^verbatim>\<open>picoPlaca\<close> exactly when
  that employee's plate has at least 3 characters and ends in 1 or 2 on a Monday, 3 or 4
  on a Tuesday, 5 or 6 on a Wednesday, 7 or 8 on a Thursday, 9 or 0 on a Friday (the
  weekday being \<^verbatim>\<open>getDay()\<close> of the date, 1 for Monday to 5 for Friday), and in
  \<^verbatim>\<open>occupied\<close> exactly when not.
\<close>

theorem daily_availability_partition:
  "sp \<in> set spaces \<Longrightarrow>
   (let r = calculateDailyAvailability getDay spaces emps date;
        av = spaces_in (available r);
        pp = spaces_in (picoPlaca r);
        oc = spaces_in (occupied r)
    in av \<union> pp \<union> oc = {x \<in> set spaces. estado x \<noteq> Mantenimiento}
     \<and> (estado sp = Mantenimiento \<longrightarrow> sp \<notin> av \<and> sp \<notin> pp \<and> sp \<notin> oc)
     \<and> (estado sp \<noteq> Mantenimiento \<longrightarrow>
          (sp \<in> av \<and> sp \<notin> pp \<and> sp \<notin> oc) \<or> (sp \<notin> av \<and> sp \<in> pp \<and> sp \<notin> oc)
          \<or> (sp \<notin> av \<and> sp \<notin> pp \<and> sp \<in> oc))
     \<and> (estado sp \<noteq> Mantenimiento
          \<and> (empleadoAsignado sp = None \<or> empleadoAsignado sp = Some 0) \<longrightarrow> sp \<in> av)
     \<and> (\<forall>n. estado sp \<noteq> Mantenimiento \<and> empleadoAsignado sp = Some n \<and> n \<noteq> 0
              \<and> (\<forall>emp \<in> set emps. emp_id emp \<noteq> n) \<longrightarrow> sp \<in> av)
     \<and> (\<forall>n i. estado sp \<noteq> Mantenimiento \<and> empleadoAsignado sp = Some n \<and> n \<noteq> 0
              \<and> i < length emps \<and> emp_id (emps ! i) = n
              \<and> (\<forall>j < i. emp_id (emps ! j) \<noteq> n) \<longrightarrow>
            (let restricted =
                   (\<exists>p. placa (emps ! i) = Some p \<and> 3 \<le> length p \<and>
                      ((getDay date = Some 1 \<and> last p \<in> {CHR ''1'', CHR ''2''})
                       \<or> (getDay date = Some 2 \<and> last p \<in> {CHR ''3'', CHR ''4''})
                       \<or> (getDay date = Some 3 \<and> last p \<in> {CHR ''5'', CHR ''6''})
                       \<or> (getDay date = Some 4 \<and> last p \<in> {CHR ''7'', CHR ''8''})
                       \<or> (getDay date = Some 5 \<and> last p \<in> {CHR ''9'', CHR ''0''})))
             in (sp \<in> pp \<longleftrightarrow> restricted) \<and> (sp \<in> oc \<longleftrightarrow> \<not> restricted))))"
proof -
  assume mem: "sp \<in> set spaces"
  let ?r = "calculateDailyAvailability getDay spaces emps date"
  let ?find = "js_find (\<lambda>emp. Some (emp_id emp) = empleadoAsignado sp) emps"
  have shape: "(estado sp = Mantenimiento \<longrightarrow>
        sp \<notin> spaces_in (available ?r) \<and> sp \<notin> spaces_in (picoPlaca ?r)
        \<and> sp \<notin> spaces_in (occupied ?r))
     \<and> (estado sp \<noteq> Mantenimiento \<longrightarrow>
          (sp \<in> spaces_in (available ?r) \<and> sp \<notin> spaces_in (picoPlaca ?r)
             \<and> sp \<notin> spaces_in (occupied ?r))
          \<or> (sp \<notin> spaces_in (available ?r) \<and> sp \<in> spaces_in (picoPlaca ?r)
             \<and> sp \<notin> spaces_in (occupied ?r))
          \<or> (sp \<notin> spaces_in (available ?r) \<and> sp \<notin> spaces_in (picoPlaca ?r)
             \<and> sp \<in> spaces_in (occupied ?r)))"
    unfolding in_available_iff in_picoPlaca_iff in_occupied_iff
    using mem by (cases ?find) auto
  have unset: "estado sp \<noteq> Mantenimiento
      \<and> (empleadoAsignado sp = None \<or> empleadoAsignado sp = Some 0)
      \<longrightarrow> sp \<in> spaces_in (available ?r)"
    using mem by (auto simp: in_available_iff truthy_def)
  have dangling: "\<forall>n. estado sp \<noteq> Mantenimiento \<and> empleadoAsignado sp = Some n \<and> n \<noteq> 0
      \<and> (\<forall>emp \<in> set emps. emp_id emp \<noteq> n) \<longrightarrow> sp \<in> spaces_in (available ?r)"
    using mem by (auto simp: in_available_iff js_find_None_iff)
  have found: "\<forall>n i. estado sp \<noteq> Mantenimiento \<and> empleadoAsignado sp = Some n \<and> n \<noteq> 0
              \<and> i < length emps \<and> emp_id (emps ! i) = n
              \<and> (\<forall>j < i. emp_id (emps ! j) \<noteq> n) \<longrightarrow>
            (let restricted =
                   (\<exists>p. placa (emps ! i) = Some p \<and> 3 \<le> length p \<and>
                      ((getDay date = Some 1 \<and> last p \<in> {CHR ''1'', CHR ''2''})
                       \<or> (getDay date = Some 2 \<and> last p \<in> {CHR ''3'', CHR ''4''})
                       \<or> (getDay date = Some 3 \<and> last p \<in> {CHR ''5'', CHR ''6''})
                       \<or> (getDay date = Some 4 \<and> last p \<in> {CHR ''7'', CHR ''8''})
                       \<or> (getDay date = Some 5 \<and> last p \<in> {CHR ''9'', CHR ''0''})))
             in (sp \<in> spaces_in (picoPlaca ?r) \<longleftrightarrow> restricted)
                \<and> (sp \<in> spaces_in (occupied ?r) \<longleftrightarrow> \<not> restricted))"
  proof (intro allI impI)
    fix n i
    assume h: "estado sp \<noteq> Mantenimiento \<and> empleadoAsignado sp = Some n \<and> n \<noteq> 0
              \<and> i < length emps \<and> emp_id (emps ! i) = n
              \<and> (\<forall>j < i. emp_id (emps ! j) \<noteq> n)"
    have "js_find (\<lambda>emp. Some (emp_id emp) = Some n) emps = Some (emps ! i)"
      using h by (intro first_index_js_find) simp_all
    then have f: "?find = Some (emps ! i)" using h by simp
    have t: "truthy (empleadoAsignado sp)" using h by (simp add: truthy_def)
    show "let restricted =
                   (\<exists>p. placa (emps ! i) = Some p \<and> 3 \<le> length p \<and>
                      ((getDay date = Some 1 \<and> last p \<in> {CHR ''1'', CHR ''2''})
                       \<or> (getDay date = Some 2 \<and> last p \<in> {CHR ''3'', CHR ''4''})
                       \<or> (getDay date = Some 3 \<and> last p \<in> {CHR ''5'', CHR ''6''})
                       \<or> (getDay date = Some 4 \<and> last p \<in> {CHR ''7'', CHR ''8''})
                       \<or> (getDay date = Some 5 \<and> last p \<in> {CHR ''9'', CHR ''0''})))
             in (sp \<in> spaces_in (picoPlaca ?r) \<longleftrightarrow> restricted)
                \<and> (sp \<in> spaces_in (occupied ?r) \<longleftrightarrow> \<not> restricted)"
      unfolding Let_def in_picoPlaca_iff in_occupied_iff f
      using mem h t by (simp add: same_day_explicit)
  qed
  show ?thesis
    unfolding Let_def using availability_cover [of getDay spaces emps date] shape unset dangling
      found [unfolded Let_def]
    by blast
qed

text \<open>
  The partition on the sample roster.  On a Thursday the free space is available, the
  space of the employee whose plate ends in 7 is freed by the restriction, the space of
  the employee whose plate ends in 0 is occupied, and the space in maintenance is in none
  of the three arrays.  On a Monday the space of the employee whose plate ends in 7 is
  occupied.
\<close>

theorem daily_availability_partition_witness:
  "sample_space 10 Carro Disponible None
     \<in> spaces_in (available (calculateDailyAvailability thursday sample_spaces sample_roster ''2024-06-06''))
   \<and> sample_space 11 Carro Ocupado (Some 1)
     \<in> spaces_in (picoPlaca (calculateDailyAvailability thursday sample_spaces sample_roster ''2024-06-06''))
   \<and> sample_space 12 Carro Ocupado (Some 2)
     \<in> spaces_in (occupied (calculateDailyAvailability thursday sample_spaces sample_roster ''2024-06-06''))
   \<and> sample_space 14 Carro Mantenimiento (Some 1)
     \<notin> spaces_in (available (calculateDailyAvailability thursday sample_spaces sample_roster ''2024-06-06''))
       \<union> spaces_in (picoPlaca (calculateDailyAvailability thursday sample_spaces sample_roster ''2024-06-06''))
       \<union> spaces_in (occupied (calculateDailyAvailability thursday sample_spaces sample_roster ''2024-06-06''))
   \<and> sample_space 11 Carro Ocupado (Some 1)
     \<in> spaces_in (occupied (calculateDailyAvailability monday sample_spaces sample_roster ''2024-06-03''))"
  using
    daily_availability_partition [of "sample_space 10 Carro Disponible None" sample_spaces
      thursday sample_roster "''2024-06-06''"]
    daily_availability_partition [of "sample_space 11 Carro Ocupado (Some 1)" sample_spaces
      thursday sample_roster "''2024-06-06''"]
    daily_availability_partition [of "sample_space 12 Carro Ocupado (Some 2)" sample_spaces
      thursday sample_roster "''2024-06-06''"]
    daily_availability_partition [of "sample_space 14 Carro Mantenimiento (Some 1)" sample_spaces
      thursday sample_roster "''2024-06-06''"]
    daily_availability_partition [of "sample_space 11 Carro Ocupado (Some 1)" sample_spaces
      monday sample_roster "''2024-06-03''"]
  by (simp add: in_available_iff in_picoPlaca_iff in_occupied_iff
      sample_spaces_def sample_roster_def sample_space_def sample_employee_def
      thursday_def monday_def getDayOfWeek_def days_def truthy_def same_day_def
      calculatePicoPlacaDay_def parseInt_char_def digit_values_def)

text \<open>
  Claim C2 as stated fails for a reference to employee id 0: the roster has an employee
  with id 0 whose plate ends in 0 (restricted on Fridays), the space refers to id 0, and
  the date is a Thursday.  The space's assigned employee is not restricted that day, yet
  the space is in \<^verbatim>\<open>available\<close> and not in \<^verbatim>\<open>occupied\<close>: 0 is falsy, and the space
  counts as having no assignment.
\<close>

theorem daily_availability_id_zero_counterexample:
  "emp_id (sample_zero_roster ! 0) = 0
   \<and> empleadoAsignado sample_zero_space = Some 0
   \<and> estado sample_zero_space = Ocupado
   \<and> calculatePicoPlacaDay (placa (sample_zero_roster ! 0)) = Some Viernes
   \<and> getDayOfWeek thursday ''2024-06-06'' = Some Jueves
   \<and> sample_zero_space
       \<in> spaces_in (available
            (calculateDailyAvailability thursday [sample_zero_space] sample_zero_roster ''2024-06-06''))
   \<and> sample_zero_space
       \<notin> spaces_in (occupied
            (calculateDailyAvailability thursday [sample_zero_space] sample_zero_roster ''2024-06-06''))"
  by (simp add: in_available_iff in_occupied_iff sample_zero_roster_def sample_zero_space_def
      sample_space_def sample_employee_def thursday_def getDayOfWeek_def days_def truthy_def
      calculatePicoPlacaDay_def parseInt_char_def digit_values_def)



section \<open>Properties of the manual assignment path\<close>

lemma update_first_length [simp]: "length (update_first P f xs) = length xs"
  by (induction xs) auto

lemma js_find_update_first_preserved:
  "(\<And>x. P (f x) = P x) \<Longrightarrow> js_find P xs = Some y \<Longrightarrow>
   \<exists>z. js_find P (update_first Q f xs) = Some z"
  by (induction xs) (auto split: if_splits)

lemma js_find_append_Some: "js_find P xs = Some y \<Longrightarrow> js_find P (xs @ ys) = Some y"
  by (induction xs) (auto split: if_splits)

lemma js_find_append_last: "P a \<Longrightarrow> \<exists>z. js_find P (xs @ [a]) = Some z"
  by (induction xs) auto

lemma assignments_createAssignment:
  "assignments (fst (createAssignment env k formData st)) =
     assignments st @
       [\<lparr>empleadoId = empleadoId formData, parqueaderoId = parqueaderoId formData,
         fechaInicio = fechaInicio formData, fechaFin = fechaFin formData,
         asg_id = generateId env k, activa = True, fechaCreacion = today env\<rparr>]"
  by (simp add: createAssignment_def Let_def)

lemma employees_createAssignment:
  "employees (fst (createAssignment env k formData st)) = employees st"
  by (simp add: createAssignment_def Let_def)

lemma parkingSpaces_createAssignment:
  "parkingSpaces (fst (createAssignment env k formData st)) =
     update_first (\<lambda>sp. Some (space_id sp) = parqueaderoId formData)
       (\<lambda>sp. sp\<lparr>empleadoAsignado := empleadoId formData, estado := Ocupado\<rparr>)
       (parkingSpaces st)"
  by (simp add: createAssignment_def Let_def)

lemma validate_after_create:
  assumes v: "isValid (validateAssignment st formData)"
  shows "validateAssignment (fst (createAssignment env k formData st)) formData
         = \<lparr>isValid = False, message = Some EMPLOYEE_ALREADY_ASSIGNED\<rparr>"
proof -
  let ?st' = "fst (createAssignment env k formData st)"
  from v obtain e where e: "js_find (\<lambda>emp. Some (emp_id emp) = empleadoId formData) (employees st) = Some e"
    by (auto simp: validateAssignment_def split: option.splits)
  from v e obtain sp where sp: "js_find (\<lambda>sp. Some (space_id sp) = parqueaderoId formData) (parkingSpaces st) = Some sp"
    by (auto simp: validateAssignment_def split: option.splits)
  have e': "js_find (\<lambda>emp. Some (emp_id emp) = empleadoId formData) (employees ?st') = Some e"
    using e by (simp add: employees_createAssignment)
  have "\<exists>z. js_find (\<lambda>sp. Some (space_id sp) = parqueaderoId formData)
            (update_first (\<lambda>sp. Some (space_id sp) = parqueaderoId formData)
               (\<lambda>sp. sp\<lparr>empleadoAsignado := empleadoId formData, estado := Ocupado\<rparr>)
               (parkingSpaces st)) = Some z"
    by (rule js_find_update_first_preserved [OF _ sp]) simp
  then obtain sp' where sp': "js_find (\<lambda>sp. Some (space_id sp) = parqueaderoId formData) (parkingSpaces ?st') = Some sp'"
    by (auto simp: parkingSpaces_createAssignment)
  from js_find_Some_D [OF e] have "empleadoId formData \<noteq> None"
    by (metis option.distinct(1))
  then have "\<exists>z. js_find (\<lambda>a. num_eq (empleadoId a) (empleadoId formData) \<and> activa a) (assignments ?st') = Some z"
    unfolding assignments_createAssignment
    by (intro js_find_append_last) (simp add: num_eq_def)
  then obtain a where a: "js_find (\<lambda>a. num_eq (empleadoId a) (empleadoId formData) \<and> activa a) (assignments ?st') = Some a"
    by blast
  show ?thesis
    unfolding validateAssignment_def by (simp add: e' sp' a)
qed

text \<open>
  The part of claim C4 that is about the state holds.  When the form is incomplete or the
  validator rejects the pair,
  \<^verbatim>\<open>handleFormSubmit\<close> returns the state as it was (assignments, spaces and employees)
  and shows a danger alert (the required-fields text when the form is incomplete, the
  validator's message otherwise).  And once a submission has
  passed validation and created its assignment, submitting the same pair again is
  rejected with "employee already assigned" and leaves the state, hence the number of
  assignments, unchanged (whether or not the first save succeeded).
\<close>

theorem failed_validation_changes_nothing:
  "(\<not> validateAssignmentData formData \<or> \<not> isValid (validateAssignment st formData) \<longrightarrow>
      fst (handleFormSubmit env formData st) = st
      \<and> snd (handleFormSubmit env formData st) =
          (if validateAssignmentData formData then message (validateAssignment st formData)
           else Some CompleteRequiredFields, Danger))
   \<and> (validateAssignmentData formData \<and> isValid (validateAssignment st formData) \<longrightarrow>
        (let st1 = fst (handleFormSubmit env formData st) in
           length (assignments st1) = Suc (length (assignments st))
           \<and> \<not> isValid (validateAssignment st1 formData)
           \<and> handleFormSubmit env2 formData st1 = (st1, (Some EMPLOYEE_ALREADY_ASSIGNED, Danger))
           \<and> length (assignments (fst (handleFormSubmit env2 formData st1)))
               = length (assignments st1)))"
proof (intro conjI impI)
  assume "\<not> validateAssignmentData formData \<or> \<not> isValid (validateAssignment st formData)"
  then show "fst (handleFormSubmit env formData st) = st"
    and "snd (handleFormSubmit env formData st) =
          (if validateAssignmentData formData then message (validateAssignment st formData)
           else Some CompleteRequiredFields, Danger)"
    by (auto simp: handleFormSubmit_def Let_def)
next
  assume a: "validateAssignmentData formData \<and> isValid (validateAssignment st formData)"
  have st1: "fst (handleFormSubmit env formData st) = fst (createAssignment env 0 formData st)"
    using a by (simp add: handleFormSubmit_def Let_def split: prod.splits bool.splits)
  have v: "validateAssignment (fst (handleFormSubmit env formData st)) formData
         = \<lparr>isValid = False, message = Some EMPLOYEE_ALREADY_ASSIGNED\<rparr>"
    unfolding st1 using a by (intro validate_after_create) simp
  have n: "length (assignments (fst (handleFormSubmit env formData st)))
      = Suc (length (assignments st))"
    unfolding st1 by (simp add: assignments_createAssignment)
  show "let st1 = fst (handleFormSubmit env formData st) in
           length (assignments st1) = Suc (length (assignments st))
           \<and> \<not> isValid (validateAssignment st1 formData)
           \<and> handleFormSubmit env2 formData st1 = (st1, (Some EMPLOYEE_ALREADY_ASSIGNED, Danger))
           \<and> length (assignments (fst (handleFormSubmit env2 formData st1)))
               = length (assignments st1)"
    using a n by (simp add: Let_def v handleFormSubmit_def [of env2])
qed

text \<open>
  On the sample state: the pair (employee 1, space 10) is accepted once and rejected the
  second time; the pair (employee 99, space 10) is rejected and changes nothing.
\<close>

theorem failed_validation_changes_nothing_witness:
  "validateAssignmentData (sample_form 1 10)
   \<and> isValid (validateAssignment sample_state (sample_form 1 10))
   \<and> handleFormSubmit sample_env (sample_form 1 10)
         (fst (handleFormSubmit sample_env (sample_form 1 10) sample_state))
       = (fst (handleFormSubmit sample_env (sample_form 1 10) sample_state),
          (Some EMPLOYEE_ALREADY_ASSIGNED, Danger))
   \<and> \<not> isValid (validateAssignment sample_state (sample_form 99 10))
   \<and> fst (handleFormSubmit sample_env (sample_form 99 10) sample_state) = sample_state"
  using failed_validation_changes_nothing [of "sample_form 1 10" sample_state sample_env sample_env]
    failed_validation_changes_nothing [of "sample_form 99 10" sample_state sample_env sample_env]
  by (simp add: Let_def validateAssignmentData_def validateAssignment_def sample_form_def
      sample_state_def sample_employee_def sample_space_def truthy_def)

text \<open>
  Claim C4 at a form that names an employee id no employee has, and at a form that names
  a space id no space has: validation fails and the state is returned as it was, but the
  danger alert that is shown has no text.  \<^verbatim>\<open>validateAssignment\<close> reads
  \<^verbatim>\<open>ERROR_MESSAGES.EMPLOYEE_NOT_FOUND\<close> and \<^verbatim>\<open>ERROR_MESSAGES.PARKING_NOT_FOUND\<close>, keys
  that \<^verbatim>\<open>constants.js\<close> does not define, so the message is \<^verbatim>\<open>undefined\<close>.
\<close>

theorem unknown_id_alert_has_no_text:
  "\<not> isValid (validateAssignment sample_state (sample_form 99 10))
   \<and> message (validateAssignment sample_state (sample_form 99 10)) = None
   \<and> handleFormSubmit sample_env (sample_form 99 10) sample_state
       = (sample_state, (None, Danger))
   \<and> \<not> isValid (validateAssignment sample_state (sample_form 1 77))
   \<and> message (validateAssignment sample_state (sample_form 1 77)) = None
   \<and> handleFormSubmit sample_env (sample_form 1 77) sample_state
       = (sample_state, (None, Danger))"
  by (simp add: handleFormSubmit_def Let_def validateAssignmentData_def validateAssignment_def
      sample_form_def sample_state_def sample_employee_def sample_space_def truthy_def)

section \<open>Properties of assignment termination\<close>

lemma update_first_list_update:
  "js_find P xs = Some x \<Longrightarrow>
   \<exists>i < length xs. xs ! i = x \<and> (\<forall>j < i. \<not> P (xs ! j)) \<and> update_first P f xs = xs[i := f x]"
proof (induction xs)
  case Nil
  then show ?case by simp
next
  case (Cons y ys)
  show ?case
  proof (cases "P y")
    case True
    with Cons.prems have "y = x" by simp
    with True show ?thesis by (intro exI [of _ 0]) simp
  next
    case False
    with Cons.prems have "js_find P ys = Some x" by simp
    from Cons.IH [OF this] obtain i where i: "i < length ys" "ys ! i = x"
      "\<forall>j < i. \<not> P (ys ! j)" "update_first P f ys = ys[i := f x]" by blast
    have "\<forall>j < Suc i. \<not> P ((y # ys) ! j)"
      using False i(3) by (auto simp: less_Suc_eq_0_disj)
    with i False show ?thesis by (intro exI [of _ "Suc i"]) simp
  qed
qed

lemma update_first_not_found: "js_find P xs = None \<Longrightarrow> update_first P f xs = xs"
  by (induction xs) (auto split: if_splits)

text \<open>
  Claim C5, as the code has it.  \<^verbatim>\<open>endAssignment\<close> takes the assignment id only.  If
  no assignment has that id, or the user declines the dialog, the state is returned as
  it was and nothing is shown.  If an assignment with that id is found and the user
  confirms, the first such assignment gets \<open>activa = False\<close> and the current date as
  its end date, the first space whose id is the assignment's \<^verbatim>\<open>parqueaderoId\<close> (if
  there is one) becomes \<open>Disponible\<close> with no assigned employee, and every other
  assignment, space and employee is unchanged.
\<close>

theorem endAssignment_effect:
  "(js_find (\<lambda>a. asg_id a = assignmentId) (assignments st) = None \<or> \<not> confirm env k \<longrightarrow>
      endAssignment env k assignmentId st = (st, None))
   \<and> (\<forall>a. js_find (\<lambda>a. asg_id a = assignmentId) (assignments st) = Some a \<and> confirm env k \<longrightarrow>
        (let st' = fst (endAssignment env k assignmentId st);
             found = js_find (\<lambda>sp. Some (space_id sp) = parqueaderoId a) (parkingSpaces st)
         in employees st' = employees st
          \<and> (\<exists>i < length (assignments st).
                assignments st ! i = a
                \<and> (\<forall>j < i. asg_id (assignments st ! j) \<noteq> assignmentId)
                \<and> assignments st' =
                    (assignments st)[i := a\<lparr>activa := False, fechaFin := Some (today env)\<rparr>])
          \<and> (found = None \<longrightarrow> parkingSpaces st' = parkingSpaces st)
          \<and> (\<forall>sp. found = Some sp \<longrightarrow>
                (\<exists>i < length (parkingSpaces st).
                   parkingSpaces st ! i = sp
                   \<and> (\<forall>j < i. Some (space_id (parkingSpaces st ! j)) \<noteq> parqueaderoId a)
                   \<and> parkingSpaces st' =
                       (parkingSpaces st)[i := sp\<lparr>empleadoAsignado := None,
                                                  estado := Disponible\<rparr>]))))"
proof (intro conjI impI allI)
  assume "js_find (\<lambda>a. asg_id a = assignmentId) (assignments st) = None \<or> \<not> confirm env k"
  then show "endAssignment env k assignmentId st = (st, None)"
    by (auto simp: endAssignment_def split: option.splits)
next
  fix a :: assignment
  assume h: "js_find (\<lambda>a. asg_id a = assignmentId) (assignments st) = Some a \<and> confirm env k"
  let ?st' = "fst (endAssignment env k assignmentId st)"
  let ?P = "\<lambda>sp::parking_space. Some (space_id sp) = parqueaderoId a"
  have as: "assignments ?st' = update_first (\<lambda>a. asg_id a = assignmentId)
              (\<lambda>a. a\<lparr>activa := False, fechaFin := Some (today env)\<rparr>) (assignments st)"
    and ps: "parkingSpaces ?st' = update_first ?P
              (\<lambda>sp. sp\<lparr>empleadoAsignado := None, estado := Disponible\<rparr>) (parkingSpaces st)"
    and es: "employees ?st' = employees st"
    using h by (simp_all add: endAssignment_def Let_def)
  have 1: "\<exists>i < length (assignments st).
                assignments st ! i = a
                \<and> (\<forall>j < i. asg_id (assignments st ! j) \<noteq> assignmentId)
                \<and> assignments ?st' =
                    (assignments st)[i := a\<lparr>activa := False, fechaFin := Some (today env)\<rparr>]"
    unfolding as using h by (intro update_first_list_update) simp
  have 2: "js_find ?P (parkingSpaces st) = None \<longrightarrow> parkingSpaces ?st' = parkingSpaces st"
    unfolding ps by (simp add: update_first_not_found)
  have 3: "\<forall>sp. js_find ?P (parkingSpaces st) = Some sp \<longrightarrow>
                (\<exists>i < length (parkingSpaces st).
                   parkingSpaces st ! i = sp
                   \<and> (\<forall>j < i. Some (space_id (parkingSpaces st ! j)) \<noteq> parqueaderoId a)
                   \<and> parkingSpaces ?st' =
                       (parkingSpaces st)[i := sp\<lparr>empleadoAsignado := None,
                                                  estado := Disponible\<rparr>])"
    unfolding ps by (intro allI impI) (rule update_first_list_update)
  show "let st' = fst (endAssignment env k assignmentId st);
             found = js_find (\<lambda>sp. Some (space_id sp) = parqueaderoId a) (parkingSpaces st)
         in employees st' = employees st
          \<and> (\<exists>i < length (assignments st).
                assignments st ! i = a
                \<and> (\<forall>j < i. asg_id (assignments st ! j) \<noteq> assignmentId)
                \<and> assignments st' =
                    (assignments st)[i := a\<lparr>activa := False, fechaFin := Some (today env)\<rparr>])
          \<and> (found = None \<longrightarrow> parkingSpaces st' = parkingSpaces st)
          \<and> (\<forall>sp. found = Some sp \<longrightarrow>
                (\<exists>i < length (parkingSpaces st).
                   parkingSpaces st ! i = sp
                   \<and> (\<forall>j < i. Some (space_id (parkingSpaces st ! j)) \<noteq> parqueaderoId a)
                   \<and> parkingSpaces st' =
                       (parkingSpaces st)[i := sp\<lparr>empleadoAsignado := None,
                                                  estado := Disponible\<rparr>]))"
    unfolding Let_def using es 1 2 3 by blast
qed


text \<open>
  On the sample state: ending the active assignment 2 deactivates it, dates it and frees
  space 10; the unknown id 77 changes nothing.
\<close>

theorem endAssignment_effect_witness:
  "js_find (\<lambda>a. asg_id a = 2) (assignments sample_assigned_state)
       = Some (sample_assignment 2 2 10 True)
   \<and> confirm (sample_env :: am_state env) 0
   \<and> assignments (fst (endAssignment sample_env 0 2 sample_assigned_state))
       = [sample_assignment 1 1 10 False,
          (sample_assignment 2 2 10 True)\<lparr>activa := False, fechaFin := Some ''2024-06-06''\<rparr>]
   \<and> parkingSpaces (fst (endAssignment sample_env 0 2 sample_assigned_state))
       = [sample_space 10 Carro Disponible None]
   \<and> endAssignment sample_env 0 77 sample_assigned_state = (sample_assigned_state, None)"
  using endAssignment_effect [of 2 sample_assigned_state sample_env 0]
    endAssignment_effect [of 77 sample_assigned_state sample_env 0]
  by (simp add: endAssignment_def Let_def sample_assigned_state_def sample_assignment_def
      sample_space_def sample_env_def)

text \<open>
  Claim C5 as stated fails for an assignment that is already inactive: ending assignment
  1 of the sample state, which is inactive, is not a no-op.  It frees space 10, which the
  active assignment 2 holds.
\<close>

theorem endAssignment_inactive_counterexample:
  "js_find (\<lambda>a. asg_id a = 1) (assignments sample_assigned_state)
       = Some (sample_assignment 1 1 10 False)
   \<and> \<not> activa (sample_assignment 1 1 10 False)
   \<and> fst (endAssignment sample_env 0 1 sample_assigned_state) \<noteq> sample_assigned_state
   \<and> parkingSpaces (fst (endAssignment sample_env 0 1 sample_assigned_state))
       = [sample_space 10 Carro Disponible None]
   \<and> has_active_for_space (fst (endAssignment sample_env 0 1 sample_assigned_state)) 10"
  by (simp add: endAssignment_def Let_def sample_assigned_state_def sample_assignment_def
      sample_space_def sample_env_def has_active_for_space_def)

section \<open>Properties of the parking manager\<close>

lemma generate_bucket_length:
  "length (fst (generate_bucket env spaces acc (tp, basement, n))) = length (fst acc) + n"
  by (cases acc) (simp add: generate_bucket_def)

lemma generate_bucket_numero:
  "map numero (fst (generate_bucket env spaces acc (tp, basement, n))) =
     map numero (fst acc)
     @ replicate n (formatParkingNumber basement tp (getNextSequentialNumber spaces tp basement))"
  by (cases acc) (simp add: generate_bucket_def o_def map_replicate_const)

lemma length_newSpaces: "length (newSpaces env totalSpaces spaces) = 300"
  by (simp add: newSpaces_def spaceTypes_def calculateDistribution_def generate_bucket_length
      CARROS_S1_def CARROS_S3_def MOTOS_S1_def BICICLETAS_S1_def)

lemma numero_newSpaces:
  "map numero (newSpaces env totalSpaces spaces) =
     replicate CARROS_S1
       (formatParkingNumber MinusOne Carro (getNextSequentialNumber spaces Carro MinusOne))
     @ replicate CARROS_S3
       (formatParkingNumber MinusThree Carro (getNextSequentialNumber spaces Carro MinusThree))
     @ replicate MOTOS_S1
       (formatParkingNumber MinusOne Moto (getNextSequentialNumber spaces Moto MinusOne))
     @ replicate BICICLETAS_S1
       (formatParkingNumber MinusOne Bicicleta
          (getNextSequentialNumber spaces Bicicleta MinusOne))"
  by (simp add: newSpaces_def spaceTypes_def calculateDistribution_def generate_bucket_numero)

lemma formatParkingNumber_first:
  "formatParkingNumber MinusOne Carro (Suc 0) = ''S1-C001''"
  "formatParkingNumber MinusThree Carro (Suc 0) = ''S3-C001''"
  "formatParkingNumber MinusOne Moto (Suc 0) = ''S1-M001''"
  "formatParkingNumber MinusOne Bicicleta (Suc 0) = ''S1-B001''"
  by code_simp+

lemma handleBulkGenerate_at_maximum:
  "MAX_PARKING_SPACES \<le> length spaces \<Longrightarrow>
   handleBulkGenerate env spaces = (spaces, Some (Some MaxSpacesReached, Warning))"
  by (simp add: handleBulkGenerate_def Let_def)

lemma handleBulkGenerate_below_maximum:
  "length spaces < MAX_PARKING_SPACES \<Longrightarrow> confirm env 0 \<Longrightarrow>
   length (fst (handleBulkGenerate env spaces)) = length spaces + 300"
  by (simp add: handleBulkGenerate_def Let_def generateParkingSpaces_def length_newSpaces
      split: prod.splits bool.splits)

lemma generate_bucket_kind:
  "map (\<lambda>sp. (tipo sp, sotano sp)) (fst (generate_bucket env spaces acc (tp, basement, n))) =
     map (\<lambda>sp. (tipo sp, sotano sp)) (fst acc) @ replicate n (tp, basement)"
  by (cases acc) (simp add: generate_bucket_def o_def map_replicate_const)

text \<open>
  From the empty state a confirmed generation creates 120 car spaces at basement -1, 120
  car spaces at basement -3, 45 motorcycle spaces and 15 bicycle spaces at basement -1.
\<close>

lemma bulk_generation_from_empty:
  "confirm env 0 \<Longrightarrow>
   map (\<lambda>sp. (tipo sp, sotano sp)) (fst (handleBulkGenerate env [])) =
     replicate 120 (Carro, MinusOne) @ replicate 120 (Carro, MinusThree)
     @ replicate 45 (Moto, MinusOne) @ replicate 15 (Bicicleta, MinusOne)"
  by (simp add: handleBulkGenerate_def Let_def MAX_PARKING_SPACES_def generateParkingSpaces_def
      newSpaces_def spaceTypes_def calculateDistribution_def generate_bucket_kind
      CARROS_S1_def CARROS_S3_def MOTOS_S1_def BICICLETAS_S1_def
      split: prod.splits bool.splits)

text \<open>
  Claim C7 at a state with one space: \<^verbatim>\<open>handleBulkGenerate\<close> passes the headroom (299) to
  \<^verbatim>\<open>generateParkingSpaces\<close>, whose distribution does not depend on its argument, so 300
  spaces are added and the total is 301.
\<close>

theorem bulk_generation_exceeds_maximum:
  "length [sample_space 1 Carro Disponible None] < MAX_PARKING_SPACES
   \<and> length (fst (handleBulkGenerate sample_env [sample_space 1 Carro Disponible None])) = 301"
  by (simp add: handleBulkGenerate_def Let_def MAX_PARKING_SPACES_def generateParkingSpaces_def
      sample_env_def length_newSpaces split: prod.splits bool.splits)

text \<open>
  Claim C8 at the empty state: \<^verbatim>\<open>getNextSequentialNumber\<close> counts the spaces of
  \<^verbatim>\<open>this.parkingSpaces\<close>, which does not grow while the new spaces are collected, so
  every space of a bucket gets the same number.
\<close>

theorem bulk_generation_repeats_numbers:
  "map numero (fst (handleBulkGenerate sample_env [])) =
     replicate 120 ''S1-C001'' @ replicate 120 ''S3-C001''
     @ replicate 45 ''S1-M001'' @ replicate 15 ''S1-B001''"
  by (simp add: handleBulkGenerate_def Let_def MAX_PARKING_SPACES_def generateParkingSpaces_def
      sample_env_def numero_newSpaces getNextSequentialNumber_def formatParkingNumber_first
      CARROS_S1_def CARROS_S3_def MOTOS_S1_def BICICLETAS_S1_def
      split: prod.splits bool.splits)

lemma am_dispatch_ParkingSpaceDeleted: "am_dispatch env (ParkingSpaceDeleted i) st = st"
  by (simp add: am_dispatch_def)

text \<open>
  Claim C9 for the deletion of a space: the parking manager removes space 10 and
  dispatches \<^verbatim>\<open>parkingSpaceDeleted\<close>, for which the assignment manager has no listener;
  its state is unchanged, and the assignment on space 10 is still active.
\<close>

theorem space_deletion_keeps_assignment_active:
  "delete_space_and_notify sample_env sample_env 10
      (parkingSpaces sample_assigned_state, sample_assigned_state)
     = ([], sample_assigned_state)
   \<and> has_active_for_space sample_assigned_state 10"
  by (simp add: delete_space_and_notify_def deleteParkingSpace_def sample_env_def Let_def
      am_dispatch_def sample_assigned_state_def sample_space_def sample_assignment_def
      has_active_for_space_def)


section \<open>Properties of the validator and of the automatic pass\<close>

lemma js_find_filter: "js_find P xs = (case filter P xs of [] \<Rightarrow> None | x # _ \<Rightarrow> Some x)"
  by (induction xs) auto

lemma js_find_distinct_key:
  "distinct (map f xs) \<Longrightarrow> x \<in> set xs \<Longrightarrow> js_find (\<lambda>y. f y = f x) xs = Some x"
  by (induction xs) (auto simp: image_iff)

lemma map_key_update_first:
  "(\<And>x. f (g x) = f x) \<Longrightarrow> map f (update_first P g xs) = map f xs"
  by (induction xs) auto

lemma update_first_distinct_key:
  assumes "distinct (map f xs)" "i < length xs"
  shows "update_first (\<lambda>y. f y = f (xs ! i)) g xs = xs[i := g (xs ! i)]"
proof -
  have "js_find (\<lambda>y. f y = f (xs ! i)) xs = Some (xs ! i)"
    using assms by (intro js_find_distinct_key) simp_all
  from update_first_list_update [OF this, of g]
  obtain k where k: "k < length xs" "xs ! k = xs ! i"
    "update_first (\<lambda>y. f y = f (xs ! i)) g xs = xs[k := g (xs ! i)]" by blast
  from assms(1) have "distinct xs" by (simp add: distinct_map)
  with k(1,2) assms(2) have "k = i" by (simp add: nth_eq_iff_index_eq)
  with k(3) show ?thesis by simp
qed

lemma create_auto:
  assumes "distinct (map space_id (parkingSpaces st))" "i < length (parkingSpaces st)"
  shows "fst (createAssignment env n (auto_form_data env e (parkingSpaces st ! i)) st) =
     st\<lparr>parkingSpaces := (parkingSpaces st)
            [i := (parkingSpaces st ! i)\<lparr>empleadoAsignado := Some (emp_id e), estado := Ocupado\<rparr>],
        assignments := assignments st @
          [\<lparr>empleadoId = Some (emp_id e), parqueaderoId = Some (space_id (parkingSpaces st ! i)),
            fechaInicio = today env, fechaFin = None, asg_id = generateId env n,
            activa = True, fechaCreacion = today env\<rparr>]\<rparr>"
  using update_first_distinct_key [OF assms, of
      "\<lambda>sp. sp\<lparr>empleadoAsignado := Some (emp_id e), estado := Ocupado\<rparr>"]
  by (simp add: createAssignment_def Let_def auto_form_data_def)


lemma auto_form_data_ids:
  "empleadoId (auto_form_data env e sp) = Some (emp_id e)"
  "parqueaderoId (auto_form_data env e sp) = Some (space_id sp)"
  by (simp_all add: auto_form_data_def)

lemma compatible_head:
  "compatibleSpaces st avail e = i # others \<Longrightarrow>
   i \<in> set avail \<and> tipo (parkingSpaces st ! i) = tipoVehiculo e
   \<and> \<not> truthy (empleadoAsignado (parkingSpaces st ! i))"
proof -
  assume h: "compatibleSpaces st avail e = i # others"
  have "i \<in> set (compatibleSpaces st avail e)" unfolding h by simp
  then show ?thesis by (simp add: compatibleSpaces_def)
qed

lemma has_active_for_employee_create:
  "has_active_for_employee (fst (createAssignment env n formData st)) x \<longleftrightarrow>
     has_active_for_employee st x \<or> empleadoId formData = Some x"
  by (auto simp: has_active_for_employee_def assignments_createAssignment)

lemma has_active_for_space_create:
  "has_active_for_space (fst (createAssignment env n formData st)) x \<longleftrightarrow>
     has_active_for_space st x \<or> parqueaderoId formData = Some x"
  by (auto simp: has_active_for_space_def assignments_createAssignment)

lemma space_ids_createAssignment:
  "map space_id (parkingSpaces (fst (createAssignment env n formData st))) =
     map space_id (parkingSpaces st)"
  by (simp add: parkingSpaces_createAssignment map_key_update_first)

lemma tipo_createAssignment:
  "map tipo (parkingSpaces (fst (createAssignment env n formData st))) =
     map tipo (parkingSpaces st)"
  by (simp add: parkingSpaces_createAssignment map_key_update_first)

lemma length_spaces_createAssignment:
  "length (parkingSpaces (fst (createAssignment env n formData st))) = length (parkingSpaces st)"
  by (simp add: parkingSpaces_createAssignment)

lemma validate_in_pass:
  assumes inv: "pass_invariant avail (e # rest) st"
    and c: "compatibleSpaces st avail e = i # others"
  shows "isValid (validateAssignment st (auto_form_data env e (parkingSpaces st ! i)))"
proof -
  let ?ps = "parkingSpaces st"
  from compatible_head [OF c] have i: "i \<in> set avail" "tipo (?ps ! i) = tipoVehiculo e"
    "\<not> truthy (empleadoAsignado (?ps ! i))" by simp_all
  from inv i(1) have len: "i < length ?ps"
    and sp: "\<not> has_active_for_space st (space_id (?ps ! i))"
    using i(3) by (auto simp: pass_invariant_def)
  from inv have e: "e \<in> set (employees st)" "\<not> has_active_for_employee st (emp_id e)"
    and de: "distinct (map emp_id (employees st))"
    and ds: "distinct (map space_id ?ps)"
    by (auto simp: pass_invariant_def)
  have f1: "js_find (\<lambda>emp. emp_id emp = emp_id e) (employees st) = Some e"
    using de e(1) by (rule js_find_distinct_key)
  have f2: "js_find (\<lambda>sp. space_id sp = space_id (?ps ! i)) ?ps = Some (?ps ! i)"
    using ds len by (intro js_find_distinct_key) simp_all
  have f3: "js_find (\<lambda>a. num_eq (empleadoId a) (Some (emp_id e)) \<and> activa a) (assignments st) = None"
    using e(2) by (auto simp: js_find_None_iff has_active_for_employee_def num_eq_def)
  have f4: "js_find (\<lambda>a. num_eq (parqueaderoId a) (Some (space_id (?ps ! i))) \<and> activa a)
              (assignments st) = None"
    using sp by (auto simp: js_find_None_iff has_active_for_space_def num_eq_def)
  show ?thesis
    by (simp add: validateAssignment_def auto_form_data_def f1 f2 f3 f4 i(2))
qed

lemma pass_invariant_skip:
  "pass_invariant avail (e # rest) st \<Longrightarrow> pass_invariant avail rest st"
  by (simp add: pass_invariant_def)

lemma pass_invariant_step:
  assumes inv: "pass_invariant avail (e # rest) st"
    and c: "compatibleSpaces st avail e = i # others"
  shows "pass_invariant avail rest
           (fst (createAssignment env n (auto_form_data env e (parkingSpaces st ! i)) st))"
proof -
  let ?ps = "parkingSpaces st"
  let ?st' = "fst (createAssignment env n (auto_form_data env e (?ps ! i)) st)"
  from compatible_head [OF c] have i: "i \<in> set avail" by simp
  from inv i have len: "i < length ?ps" by (auto simp: pass_invariant_def)
  from inv have ds: "distinct (map space_id ?ps)" by (simp add: pass_invariant_def)
  from inv have e0: "emp_id e \<noteq> 0" by (simp add: pass_invariant_def)
  have ps': "parkingSpaces ?st' =
      ?ps[i := (?ps ! i)\<lparr>empleadoAsignado := Some (emp_id e), estado := Ocupado\<rparr>]"
    by (simp add: create_auto [OF ds len])
  have emp: "\<forall>x \<in> set rest. x \<in> set (employees ?st') \<and> emp_id x \<noteq> 0
        \<and> \<not> has_active_for_employee ?st' (emp_id x)"
    using inv
    by (auto simp: pass_invariant_def employees_createAssignment has_active_for_employee_create
        auto_form_data_ids)
  have spc: "\<forall>j \<in> set avail. j < length (parkingSpaces ?st')
        \<and> (has_active_for_space ?st' (space_id (parkingSpaces ?st' ! j))
             \<longrightarrow> truthy (empleadoAsignado (parkingSpaces ?st' ! j)))"
  proof (intro ballI conjI impI)
    fix j assume j: "j \<in> set avail"
    with inv have lj: "j < length ?ps" by (auto simp: pass_invariant_def)
    then show "j < length (parkingSpaces ?st')" by (simp add: ps')
    assume a: "has_active_for_space ?st' (space_id (parkingSpaces ?st' ! j))"
    show "truthy (empleadoAsignado (parkingSpaces ?st' ! j))"
    proof (cases "j = i")
      case True
      then show ?thesis using len e0 by (simp add: ps' truthy_def)
    next
      case False
      have ne: "space_id (?ps ! j) \<noteq> space_id (?ps ! i)"
      proof -
        have "map space_id ?ps ! j \<noteq> map space_id ?ps ! i"
          using ds lj len False by (simp only: nth_eq_iff_index_eq length_map not_False_eq_True)
        then show ?thesis using lj len by simp
      qed
      from a False lj have "has_active_for_space st (space_id (?ps ! j))"
        using ne by (simp add: ps' has_active_for_space_create auto_form_data_ids)
      with inv j have "truthy (empleadoAsignado (?ps ! j))" by (auto simp: pass_invariant_def)
      then show ?thesis using False by (simp add: ps')
    qed
  qed
  from inv have "distinct (map emp_id (employees ?st'))" "distinct (map space_id (parkingSpaces ?st'))"
    "distinct (map emp_id rest)"
    by (simp_all add: pass_invariant_def employees_createAssignment space_ids_createAssignment)
  with emp spc show ?thesis unfolding pass_invariant_def by blast
qed

lemma auto_loop_validated:
  "pass_invariant avail emps st \<Longrightarrow>
   auto_loop env avail emps st n = validated_auto_loop env avail emps st n"
proof (induction emps arbitrary: st n)
  case Nil
  show ?case by simp
next
  case (Cons e rest)
  show ?case
  proof (cases "compatibleSpaces st avail e")
    case Nil
    then show ?thesis
      using Cons.IH [OF pass_invariant_skip [OF Cons.prems]] by simp
  next
    case (Cons i others)
    note v = validate_in_pass [OF Cons.prems Cons, of env]
    note s = pass_invariant_step [OF Cons.prems Cons, of env n]
    show ?thesis
      using Cons v Cons.IH [OF s]
      by (cases "createAssignment env n (auto_form_data env e (parkingSpaces st ! i)) st")
         (auto split: bool.splits)
  qed
qed


lemma pass_invariant_initial:
  assumes "distinct (map emp_id (employees st))" "distinct (map space_id (parkingSpaces st))"
    "\<forall>e \<in> set (unassignedEmployees st). emp_id e \<noteq> 0"
  shows "pass_invariant (availableSpaceRefs st) (unassignedEmployees st) st"
proof -
  have "distinct (map emp_id (unassignedEmployees st))"
    using assms(1) unfolding unassignedEmployees_def by (rule distinct_map_filter)
  moreover have "\<forall>e \<in> set (unassignedEmployees st). e \<in> set (employees st)
       \<and> \<not> has_active_for_employee st (emp_id e)"
    by (simp add: unassignedEmployees_def)
  moreover have "\<forall>i \<in> set (availableSpaceRefs st). i < length (parkingSpaces st)
       \<and> \<not> has_active_for_space st (space_id (parkingSpaces st ! i))"
    by (simp add: availableSpaceRefs_def)
  ultimately show ?thesis
    using assms unfolding pass_invariant_def by blast
qed

lemma validateAssignment_valid_iff:
  "isValid (validateAssignment st formData) \<longleftrightarrow>
     \<not> ((\<forall>e \<in> set (employees st). Some (emp_id e) \<noteq> empleadoId formData)
        \<or> (\<forall>sp \<in> set (parkingSpaces st). Some (space_id sp) \<noteq> parqueaderoId formData)
        \<or> (\<exists>a \<in> set (assignments st). num_eq (empleadoId a) (empleadoId formData) \<and> activa a)
        \<or> (\<exists>a \<in> set (assignments st). num_eq (parqueaderoId a) (parqueaderoId formData) \<and> activa a)
        \<or> (\<exists>e sp. js_find (\<lambda>emp. Some (emp_id emp) = empleadoId formData) (employees st) = Some e
              \<and> js_find (\<lambda>sp. Some (space_id sp) = parqueaderoId formData) (parkingSpaces st)
                  = Some sp
              \<and> tipoVehiculo e \<noteq> tipo sp))"
proof -
  let ?fe = "js_find (\<lambda>emp. Some (emp_id emp) = empleadoId formData) (employees st)"
  let ?fs = "js_find (\<lambda>sp. Some (space_id sp) = parqueaderoId formData) (parkingSpaces st)"
  let ?fa = "js_find (\<lambda>a. num_eq (empleadoId a) (empleadoId formData) \<and> activa a) (assignments st)"
  let ?fp = "js_find (\<lambda>a. num_eq (parqueaderoId a) (parqueaderoId formData) \<and> activa a) (assignments st)"
  have e: "(\<forall>e \<in> set (employees st). Some (emp_id e) \<noteq> empleadoId formData) \<longleftrightarrow> ?fe = None"
    by (simp add: js_find_None_iff)
  have s: "(\<forall>sp \<in> set (parkingSpaces st). Some (space_id sp) \<noteq> parqueaderoId formData) \<longleftrightarrow> ?fs = None"
    by (simp add: js_find_None_iff)
  have a: "(\<exists>a \<in> set (assignments st). num_eq (empleadoId a) (empleadoId formData) \<and> activa a)
        \<longleftrightarrow> ?fa \<noteq> None"
    by (simp add: js_find_None_iff)
  have p: "(\<exists>a \<in> set (assignments st). num_eq (parqueaderoId a) (parqueaderoId formData) \<and> activa a)
        \<longleftrightarrow> ?fp \<noteq> None"
    by (simp add: js_find_None_iff)
  show ?thesis
    unfolding e s a p validateAssignment_def
    by (cases ?fe; cases ?fs; cases ?fa; cases ?fp) simp_all
qed

text \<open>
  Claim C1, as the code has it.  \<^verbatim>\<open>validateAssignment\<close> accepts a pair exactly when none
  of these holds: no employee has the employee id; no space has the space id; an active
  assignment has the employee id; an active assignment has the space id; the vehicle type
  of the employee found differs from the type of the space found.  The manual path
  changes the state only when the form was complete and the validator accepted.  The
  automatic path does not call the validator: it picks its pairs through its own filters.
  When every employee id and every space id occurs once and no unassigned employee has
  id 0, each pair it creates is one the validator accepts in the state of that moment, so
  the pass is the same as the pass with the validator run before every creation.
\<close>

theorem validator_contract:
  "(isValid (validateAssignment st formData) \<longleftrightarrow>
     \<not> ((\<forall>e \<in> set (employees st). Some (emp_id e) \<noteq> empleadoId formData)
        \<or> (\<forall>sp \<in> set (parkingSpaces st). Some (space_id sp) \<noteq> parqueaderoId formData)
        \<or> (\<exists>a \<in> set (assignments st). num_eq (empleadoId a) (empleadoId formData) \<and> activa a)
        \<or> (\<exists>a \<in> set (assignments st). num_eq (parqueaderoId a) (parqueaderoId formData) \<and> activa a)
        \<or> (\<exists>e sp. js_find (\<lambda>emp. Some (emp_id emp) = empleadoId formData) (employees st) = Some e
              \<and> js_find (\<lambda>sp. Some (space_id sp) = parqueaderoId formData) (parkingSpaces st)
                  = Some sp
              \<and> tipoVehiculo e \<noteq> tipo sp)))
   \<and> (fst (handleFormSubmit env formData st) \<noteq> st \<longrightarrow>
        validateAssignmentData formData \<and> isValid (validateAssignment st formData))
   \<and> (distinct (map emp_id (employees st)) \<and> distinct (map space_id (parkingSpaces st))
        \<and> (\<forall>e \<in> set (unassignedEmployees st). emp_id e \<noteq> 0) \<longrightarrow>
        performAutoAssignment env st = performAutoAssignment_validated env st)"
proof (intro conjI impI)
  show "isValid (validateAssignment st formData) \<longleftrightarrow>
     \<not> ((\<forall>e \<in> set (employees st). Some (emp_id e) \<noteq> empleadoId formData)
        \<or> (\<forall>sp \<in> set (parkingSpaces st). Some (space_id sp) \<noteq> parqueaderoId formData)
        \<or> (\<exists>a \<in> set (assignments st). num_eq (empleadoId a) (empleadoId formData) \<and> activa a)
        \<or> (\<exists>a \<in> set (assignments st). num_eq (parqueaderoId a) (parqueaderoId formData) \<and> activa a)
        \<or> (\<exists>e sp. js_find (\<lambda>emp. Some (emp_id emp) = empleadoId formData) (employees st) = Some e
              \<and> js_find (\<lambda>sp. Some (space_id sp) = parqueaderoId formData) (parkingSpaces st)
                  = Some sp
              \<and> tipoVehiculo e \<noteq> tipo sp))"
    by (rule validateAssignment_valid_iff)
next
  assume ch: "fst (handleFormSubmit env formData st) \<noteq> st"
  then show "validateAssignmentData formData"
    by (auto simp: handleFormSubmit_def Let_def split: if_splits)
  from ch show "isValid (validateAssignment st formData)"
    by (auto simp: handleFormSubmit_def Let_def split: if_splits)
next
  assume "distinct (map emp_id (employees st)) \<and> distinct (map space_id (parkingSpaces st))
        \<and> (\<forall>e \<in> set (unassignedEmployees st). emp_id e \<noteq> 0)"
  then have "pass_invariant (availableSpaceRefs st) (unassignedEmployees st) st"
    by (intro pass_invariant_initial) simp_all
  then show "performAutoAssignment env st = performAutoAssignment_validated env st"
    by (simp add: performAutoAssignment_def performAutoAssignment_validated_def
        auto_loop_validated)
qed

lemma upt_2: "[0 ..< 2] = [0, Suc 0]"
  by (simp add: numeral_2_eq_2)

text \<open>
  On the sample state the pair (employee 1, space 10) is accepted and the manual path
  creates its assignment; the ids satisfy the conditions, and the automatic pass equals
  the validated pass.
\<close>

theorem validator_contract_witness:
  "isValid (validateAssignment sample_state (sample_form 1 10))
   \<and> fst (handleFormSubmit sample_env (sample_form 1 10) sample_state) \<noteq> sample_state
   \<and> distinct (map emp_id (employees sample_state))
   \<and> distinct (map space_id (parkingSpaces sample_state))
   \<and> 0 \<notin> set (map emp_id (unassignedEmployees sample_state))
   \<and> performAutoAssignment sample_env sample_state
       = performAutoAssignment_validated sample_env sample_state"
  using validator_contract [of sample_state "sample_form 1 10" sample_env]
  by (simp add: sample_state_def sample_form_def sample_employee_def sample_space_def
      sample_env_def unassignedEmployees_def has_active_for_employee_def num_eq_def
      handleFormSubmit_def validateAssignmentData_def validateAssignment_def
      createAssignment_def Let_def truthy_def)

text \<open>
  Claim C1 as stated fails for the automatic path: with two unassigned employees that
  share the id 5, the pass creates two active assignments for employee id 5.  In the
  state after the first creation the validator rejects the second pair ("employee
  already assigned"), and the pass creates it all the same.
\<close>

theorem auto_assignment_unvalidated_counterexample:
  "map (\<lambda>a. (empleadoId a, parqueaderoId a, activa a))
       (assignments (fst (performAutoAssignment sample_env sample_twin_employees)))
     = [(Some 5, Some 10, True), (Some 5, Some 11, True)]
   \<and> validateAssignment
        (fst (createAssignment sample_env 0
               (auto_form_data sample_env (sample_employee 5 ''ABC127'' Carro)
                  (sample_space 10 Carro Disponible None)) sample_twin_employees))
        (auto_form_data sample_env (sample_employee 5 ''XYZ450'' Carro)
           (sample_space 11 Carro Disponible None))
     = \<lparr>isValid = False, message = Some EMPLOYEE_ALREADY_ASSIGNED\<rparr>
   \<and> performAutoAssignment sample_env sample_twin_employees
       \<noteq> performAutoAssignment_validated sample_env sample_twin_employees"
  by (simp add: performAutoAssignment_def performAutoAssignment_validated_def
      unassignedEmployees_def availableSpaceRefs_def has_active_for_employee_def
      has_active_for_space_def compatibleSpaces_def createAssignment_def Let_def
      validateAssignment_def num_eq_def auto_form_data_def truthy_def upt_2
      sample_twin_employees_def sample_employee_def sample_space_def sample_env_def)



lemma compatible_unclaimed:
  assumes "claim_tracking avail claimed st"
  shows "compatibleSpaces st avail e =
     filter (\<lambda>i. tipo (parkingSpaces st ! i) = tipoVehiculo e \<and> i \<notin> set claimed) avail"
  unfolding compatibleSpaces_def
  using assms by (intro filter_cong refl) (auto simp: claim_tracking_def)

lemma claim_tracking_step:
  assumes ct: "claim_tracking avail claimed st" and e0: "emp_id e \<noteq> 0" and i: "i \<in> set avail"
  shows "claim_tracking avail (i # claimed)
           (fst (createAssignment env n (auto_form_data env e (parkingSpaces st ! i)) st))"
proof -
  let ?ps = "parkingSpaces st"
  let ?st' = "fst (createAssignment env n (auto_form_data env e (?ps ! i)) st)"
  from ct have ds: "distinct (map space_id ?ps)" by (simp add: claim_tracking_def)
  from ct i have len: "i < length ?ps" by (simp add: claim_tracking_def)
  have ps': "parkingSpaces ?st' =
      ?ps[i := (?ps ! i)\<lparr>empleadoAsignado := Some (emp_id e), estado := Ocupado\<rparr>]"
    by (simp add: create_auto [OF ds len])
  have "\<forall>j \<in> set avail. j < length (parkingSpaces ?st')
      \<and> (truthy (empleadoAsignado (parkingSpaces ?st' ! j)) \<longleftrightarrow> j \<in> set (i # claimed))"
  proof
    fix j assume j: "j \<in> set avail"
    with ct have lj: "j < length ?ps"
      and old: "truthy (empleadoAsignado (?ps ! j)) \<longleftrightarrow> j \<in> set claimed"
      by (simp_all add: claim_tracking_def)
    show "j < length (parkingSpaces ?st')
      \<and> (truthy (empleadoAsignado (parkingSpaces ?st' ! j)) \<longleftrightarrow> j \<in> set (i # claimed))"
    proof (cases "j = i")
      case True
      then show ?thesis using len e0 by (simp add: ps' truthy_def)
    next
      case False
      then show ?thesis using lj old by (simp add: ps')
    qed
  qed
  moreover have "distinct (map space_id (parkingSpaces ?st'))"
    using ds by (simp add: space_ids_createAssignment)
  ultimately show ?thesis unfolding claim_tracking_def by blast
qed

lemma auto_loop_greedy:
  "claim_tracking avail claimed st \<Longrightarrow> \<forall>e \<in> set emps. emp_id e \<noteq> 0 \<Longrightarrow>
   auto_loop env avail emps st n = greedy_pass env avail claimed emps st n"
proof (induction emps arbitrary: st n claimed)
  case Nil
  show ?case by simp
next
  case (Cons e rest)
  let ?P = "\<lambda>i. tipo (parkingSpaces st ! i) = tipoVehiculo e \<and> i \<notin> set claimed"
  have c: "compatibleSpaces st avail e = filter ?P avail"
    using Cons.prems(1) by (rule compatible_unclaimed)
  from Cons.prems(2) have rest0: "\<forall>e \<in> set rest. emp_id e \<noteq> 0" and e0: "emp_id e \<noteq> 0"
    by simp_all
  show ?case
  proof (cases "filter ?P avail")
    case Nil
    then have "js_find ?P avail = None" by (simp add: js_find_filter)
    then show ?thesis
      using Nil c Cons.IH [OF Cons.prems(1) rest0] by simp
  next
    case (Cons i others)
    then have f: "js_find ?P avail = Some i" by (simp add: js_find_filter)
    have "i \<in> set (filter ?P avail)" unfolding Cons by simp
    then have i: "i \<in> set avail" by simp
    note s = claim_tracking_step [OF Cons.prems(1) e0 i, of env n]
    show ?thesis
      using Cons c f Cons.IH [OF s rest0]
      by (cases "createAssignment env n (auto_form_data env e (parkingSpaces st ! i)) st")
         (auto split: bool.splits)
  qed
qed

lemma auto_loop_count:
  "auto_loop env avail emps st n = (st', Completed m) \<Longrightarrow>
   length (assignments st') + n = length (assignments st) + m"
proof (induction emps arbitrary: st n)
  case Nil
  then show ?case by simp
next
  case (Cons e rest)
  show ?case
  proof (cases "compatibleSpaces st avail e")
    case Nil
    with Cons.prems have "auto_loop env avail rest st n = (st', Completed m)" by simp
    from Cons.IH [OF this] show ?thesis .
  next
    case (Cons i others)
    obtain st1 ok where cr:
      "createAssignment env n (auto_form_data env e (parkingSpaces st ! i)) st = (st1, ok)"
      by (cases "createAssignment env n (auto_form_data env e (parkingSpaces st ! i)) st")
    with Cons Cons.prems have ok: "ok" and l: "auto_loop env avail rest st1 (Suc n) = (st', Completed m)"
      by (auto split: bool.splits)
    have "length (assignments st1) = Suc (length (assignments st))"
      using assignments_createAssignment [of env n "auto_form_data env e (parkingSpaces st ! i)" st]
      by (simp add: cr)
    with Cons.IH [OF l] show ?thesis by simp
  qed
qed

text \<open>
  Claim C6, as the code has it.  The pass tells a claimed space by the space's
  \<^verbatim>\<open>empleadoAsignado\<close> field, which \<^verbatim>\<open>createAssignment\<close> sets on the first space with the
  chosen id.  When every space id occurs once, no unassigned employee has id 0 and no
  available space carries an assigned employee at the start, \<^verbatim>\<open>performAutoAssignment\<close>
  stops with a notice and no change when there is no unassigned employee, no available
  space, or the user declines, and otherwise is the greedy pass: each unassigned employee
  in list order gets the first available space of the employee's vehicle type not claimed
  earlier in the pass, through \<^verbatim>\<open>createAssignment\<close>, or is skipped.  The function
  returns no value: whenever the pass completes, the number of assignments it added is
  the number shown in the final alert.
\<close>

theorem auto_assignment_is_greedy:
  "(distinct (map space_id (parkingSpaces st))
      \<and> (\<forall>e \<in> set (unassignedEmployees st). emp_id e \<noteq> 0)
      \<and> (\<forall>i \<in> set (availableSpaceRefs st). \<not> truthy (empleadoAsignado (parkingSpaces st ! i)))
     \<longrightarrow> performAutoAssignment env st =
          (if unassignedEmployees st = [] then (st, NoEmployees)
           else if availableSpaceRefs st = [] then (st, NoSpaces)
           else if \<not> confirm env 0 then (st, Declined)
           else greedy_pass env (availableSpaceRefs st) [] (unassignedEmployees st) st 0))
   \<and> (\<forall>st' n. performAutoAssignment env st = (st', Completed n) \<longrightarrow>
          length (assignments st') = length (assignments st) + n
          \<and> auto_alert (snd (performAutoAssignment env st))
              = Some (Some (AUTO_ASSIGNMENTS_COMPLETED n), Success))"
proof (intro conjI impI allI)
  assume h: "distinct (map space_id (parkingSpaces st))
      \<and> (\<forall>e \<in> set (unassignedEmployees st). emp_id e \<noteq> 0)
      \<and> (\<forall>i \<in> set (availableSpaceRefs st). \<not> truthy (empleadoAsignado (parkingSpaces st ! i)))"
  have "\<forall>i \<in> set (availableSpaceRefs st). i < length (parkingSpaces st)"
    by (simp add: availableSpaceRefs_def)
  with h have "claim_tracking (availableSpaceRefs st) [] st"
    by (simp add: claim_tracking_def)
  then have "auto_loop env (availableSpaceRefs st) (unassignedEmployees st) st 0
      = greedy_pass env (availableSpaceRefs st) [] (unassignedEmployees st) st 0"
    using h by (intro auto_loop_greedy) simp_all
  then show "performAutoAssignment env st =
          (if unassignedEmployees st = [] then (st, NoEmployees)
           else if availableSpaceRefs st = [] then (st, NoSpaces)
           else if \<not> confirm env 0 then (st, Declined)
           else greedy_pass env (availableSpaceRefs st) [] (unassignedEmployees st) st 0)"
    by (simp add: performAutoAssignment_def)
next
  fix st' n
  assume r: "performAutoAssignment env st = (st', Completed n)"
  then have "auto_loop env (availableSpaceRefs st) (unassignedEmployees st) st 0
      = (st', Completed n)"
    by (auto simp: performAutoAssignment_def split: if_splits)
  from auto_loop_count [OF this]
  show "length (assignments st') = length (assignments st) + n" by simp
  show "auto_alert (snd (performAutoAssignment env st))
      = Some (Some (AUTO_ASSIGNMENTS_COMPLETED n), Success)"
    by (simp add: r auto_alert_def)
qed

text \<open>
  On the sample state (three employees, the third a motorcyclist; two free car spaces)
  the conditions hold, employees 1 and 2 get spaces 10 and 11, employee 3 is skipped and
  the count is 2.
\<close>

theorem auto_assignment_is_greedy_witness:
  "distinct (map space_id (parkingSpaces sample_state))
   \<and> 0 \<notin> set (map emp_id (unassignedEmployees sample_state))
   \<and> availableSpaceRefs sample_state = [0, 1]
   \<and> map (\<lambda>i. empleadoAsignado (parkingSpaces sample_state ! i)) [0, 1] = [None, None]
   \<and> snd (performAutoAssignment sample_env sample_state) = Completed 2
   \<and> map (\<lambda>a. (empleadoId a, parqueaderoId a, activa a))
        (assignments (fst (performAutoAssignment sample_env sample_state)))
       = [(Some 1, Some 10, True), (Some 2, Some 11, True)]
   \<and> performAutoAssignment sample_env sample_state
       = greedy_pass sample_env [0, 1] [] (unassignedEmployees sample_state) sample_state 0"
  using auto_assignment_is_greedy [of sample_state sample_env]
  by (simp add: performAutoAssignment_def
      unassignedEmployees_def availableSpaceRefs_def has_active_for_employee_def
      has_active_for_space_def compatibleSpaces_def createAssignment_def Let_def
      auto_form_data_def truthy_def upt_2
      sample_state_def sample_employee_def sample_space_def sample_env_def)

text \<open>
  Claim C6 as stated fails when two spaces share an id: \<^verbatim>\<open>createAssignment\<close> marks the
  first space with id 10 each time, the second space is never marked, and three
  employees are assigned to two spaces: the third employee gets the space the second
  employee's round had claimed.  The greedy pass of the claim assigns two.
\<close>

theorem auto_assignment_twin_spaces_counterexample:
  "length (parkingSpaces sample_twin_spaces) = 2
   \<and> snd (performAutoAssignment sample_env sample_twin_spaces) = Completed 3
   \<and> map (\<lambda>a. (empleadoId a, parqueaderoId a, activa a))
        (assignments (fst (performAutoAssignment sample_env sample_twin_spaces)))
       = [(Some 1, Some 10, True), (Some 2, Some 10, True), (Some 3, Some 10, True)]
   \<and> snd (greedy_pass sample_env (availableSpaceRefs sample_twin_spaces) []
            (unassignedEmployees sample_twin_spaces) sample_twin_spaces 0) = Completed 2"
  by (simp add: performAutoAssignment_def
      unassignedEmployees_def availableSpaceRefs_def has_active_for_employee_def
      has_active_for_space_def compatibleSpaces_def createAssignment_def Let_def
      auto_form_data_def truthy_def upt_2
      sample_twin_spaces_def sample_employee_def sample_space_def sample_env_def)


end
